theory Spec2Isabelle
  imports
    Complex_Main
    "HOL-Library.AList"
    "HOL-Library.Char_ord"
    "HOL-Library.List_Lexorder"
    "HOL-Library.Multiset"
begin

chapter \<open>Fusion Engine: entity resolution, conflict classification, dependency graph\<close>

text \<open>
  A shallow embedding of the TypeScript sources
  \<^item> \<^verbatim>\<open>core/pipeline/steps/resolveAndMergeStep.ts\<close> and \<^verbatim>\<open>resolveStep.ts\<close>
    (unified paths, conflict detection, conflict report),
  \<^item> \<^verbatim>\<open>core/validator/dependencyGraphBuilder.ts\<close> (import resolution, edges),
  \<^item> \<^verbatim>\<open>core/pipeline/steps/mergeStep.ts\<close> and \<^verbatim>\<open>logic/merger/deepSmartMerge.ts\<close>
    (the merge decision).

  Conventions. A JavaScript string is a \<^typ>\<open>string\<close> (a list of 8-bit characters; the
  sources' strings are file paths and identifiers). An optional field is an
  \<^typ>\<open>'a option\<close>. A thrown exception is the \<open>Inl\<close> of a sum. An array that the
  source mutates is passed in and returned. Console output is not modelled.
\<close>

section \<open>JavaScript values\<close>

text \<open>Truthiness of a string (\<open>''\<close> is falsy) and of an optional string.\<close>

definition truthy :: "string \<Rightarrow> bool" where
  "truthy s \<longleftrightarrow> s \<noteq> []"

definition truthy_opt :: "string option \<Rightarrow> bool" where
  "truthy_opt v = (case v of None \<Rightarrow> False | Some s \<Rightarrow> truthy s)"

text \<open>\<^verbatim>\<open>a || b\<close> for an optional string \<open>a\<close> and a string \<open>b\<close>.\<close>

definition or_else :: "string option \<Rightarrow> string \<Rightarrow> string" where
  "or_else v d = (case v of None \<Rightarrow> d | Some s \<Rightarrow> if truthy s then s else d)"

text \<open>An optional string inside a template literal.\<close>

definition show_opt :: "string option \<Rightarrow> string" where
  "show_opt v = (case v of None \<Rightarrow> ''undefined'' | Some s \<Rightarrow> s)"

text \<open>\<^verbatim>\<open>s.startsWith(p)\<close>, \<^verbatim>\<open>s.endsWith(p)\<close> and \<^verbatim>\<open>s.includes(p)\<close>.\<close>

definition startsWith :: "string \<Rightarrow> string \<Rightarrow> bool" where
  "startsWith s p \<longleftrightarrow> take (length p) s = p"

definition endsWith :: "string \<Rightarrow> string \<Rightarrow> bool" where
  "endsWith s p \<longleftrightarrow> length p \<le> length s \<and> drop (length s - length p) s = p"

fun str_includes :: "string \<Rightarrow> string \<Rightarrow> bool" where
  "str_includes [] p = (p = [])"
| "str_includes (c # s) p = (startsWith (c # s) p \<or> str_includes s p)"

text \<open>
  \<^verbatim>\<open>new Map(entries)\<close>: keys stay in the order of their first insertion, a later entry
  for a key overwrites the value.
\<close>

definition js_Map :: "('k \<times> 'v) list \<Rightarrow> ('k \<times> 'v) list" where
  "js_Map entries = fold (\<lambda>(k, v) m. AList.update k v m) entries []"

text \<open>
  \<^verbatim>\<open>{[k1]: v1, [k2]: v2}\<close>, an object literal with two computed keys, as the list of
  its own properties in the order JavaScript enumerates them: keys that are array
  indices (the canonical decimal numeral of an integer from 0 to \<open>2\<^sup>3\<^sup>2 - 2\<close>) come
  first, in ascending order, the other keys follow in the order they were set; a key
  set twice keeps its place and takes the later value.
\<close>

definition isDigit :: "char \<Rightarrow> bool" where
  "isDigit c \<longleftrightarrow> CHR ''0'' \<le> c \<and> c \<le> CHR ''9''"

definition decimalValue :: "string \<Rightarrow> int" where
  "decimalValue s = fold (\<lambda>c n. 10 * n + (of_char c - 48)) s 0"

definition isArrayIndex :: "string \<Rightarrow> bool" where
  "isArrayIndex s \<longleftrightarrow>
     s \<noteq> [] \<and> list_all isDigit s \<and> (s = ''0'' \<or> hd s \<noteq> CHR ''0'')
     \<and> decimalValue s \<le> 4294967294"

definition obj2 :: "string \<Rightarrow> 'v \<Rightarrow> string \<Rightarrow> 'v \<Rightarrow> (string \<times> 'v) list" where
  "obj2 k1 v1 k2 v2 =
     (if k1 = k2 then [(k1, v2)]
      else if isArrayIndex k2 \<and> (isArrayIndex k1 \<longrightarrow> decimalValue k2 < decimalValue k1)
      then [(k2, v2), (k1, v1)]
      else [(k1, v1), (k2, v2)])"

definition quoted :: "string \<Rightarrow> string" where
  "quoted s = CHR 0x22 # s @ [CHR 0x22]"

datatype js_error = TypeError string | Error string

section \<open>Node's \<^verbatim>\<open>path\<close> module (POSIX)\<close>

text \<open>
  The sources call \<^verbatim>\<open>path.join\<close>, \<^verbatim>\<open>path.resolve\<close>, \<^verbatim>\<open>path.relative\<close> and
  \<^verbatim>\<open>path.dirname\<close> of Node.js. They are library code; the model follows the POSIX
  implementation. \<^verbatim>\<open>normalizeString\<close> walks the segments between slashes: empty
  segments and \<^verbatim>\<open>.\<close> are dropped, \<^verbatim>\<open>..\<close> removes the segment before it, or is kept
  when there is none and the path may climb above its start.
\<close>

fun splitOn :: "char \<Rightarrow> string \<Rightarrow> string list" where
  "splitOn d [] = [[]]"
| "splitOn d (c # s) =
     (if c = d then [] # splitOn d s
      else (case splitOn d s of [] \<Rightarrow> [[c]] | x # xs \<Rightarrow> (c # x) # xs))"

fun joinWith :: "string \<Rightarrow> string list \<Rightarrow> string" where
  "joinWith sep [] = []"
| "joinWith sep [x] = x"
| "joinWith sep (x # y # r) = x @ sep @ joinWith sep (y # r)"

fun normalizeSegs :: "bool \<Rightarrow> string list \<Rightarrow> string list \<Rightarrow> string list" where
  "normalizeSegs allowAboveRoot [] res = res"
| "normalizeSegs allowAboveRoot (seg # rest) res =
     (if seg = [] \<or> seg = ''.'' then normalizeSegs allowAboveRoot rest res
      else if seg = ''..'' then
        (if res \<noteq> [] \<and> last res \<noteq> ''..'' then normalizeSegs allowAboveRoot rest (butlast res)
         else if allowAboveRoot then normalizeSegs allowAboveRoot rest (res @ [''..''])
         else normalizeSegs allowAboveRoot rest res)
      else normalizeSegs allowAboveRoot rest (res @ [seg]))"

definition normalizeString :: "string \<Rightarrow> bool \<Rightarrow> string" where
  "normalizeString p allowAboveRoot =
     joinWith ''/'' (normalizeSegs allowAboveRoot (splitOn CHR ''/'' p) [])"

definition isAbsolute :: "string \<Rightarrow> bool" where
  "isAbsolute p \<longleftrightarrow> p \<noteq> [] \<and> hd p = CHR ''/''"

definition path_normalize :: "string \<Rightarrow> string" where
  "path_normalize p =
     (if p = [] then ''.''
      else let trailingSeparator = (last p = CHR ''/'');
               n = normalizeString p (\<not> isAbsolute p)
           in if n = [] then (if isAbsolute p then ''/'' else if trailingSeparator then ''./'' else ''.'')
              else (let n' = (if trailingSeparator then n @ ''/'' else n)
                    in if isAbsolute p then CHR ''/'' # n' else n'))"

definition path_join :: "string list \<Rightarrow> string" where
  "path_join args =
     (let parts = filter (\<lambda>a. a \<noteq> []) args
      in if parts = [] then ''.'' else path_normalize (joinWith ''/'' parts))"

text \<open>
  \<^verbatim>\<open>path.resolve\<close> prepends its arguments from right to left until the path is
  absolute, falling back on the working directory of the process, here a parameter.
\<close>

fun prependUntilAbsolute :: "string list \<Rightarrow> string \<Rightarrow> string \<times> bool" where
  "prependUntilAbsolute [] resolvedPath = (resolvedPath, False)"
| "prependUntilAbsolute (p # ps) resolvedPath =
     (if p = [] then prependUntilAbsolute ps resolvedPath
      else if isAbsolute p then (p @ ''/'' @ resolvedPath, True)
      else prependUntilAbsolute ps (p @ ''/'' @ resolvedPath))"

definition path_resolve :: "string \<Rightarrow> string list \<Rightarrow> string" where
  "path_resolve cwd args =
     (case prependUntilAbsolute (rev args @ [cwd]) [] of
        (resolvedPath, resolvedAbsolute) \<Rightarrow>
          (let n = normalizeString resolvedPath (\<not> resolvedAbsolute)
           in if resolvedAbsolute then CHR ''/'' # n else if n \<noteq> [] then n else ''.''))"

fun dropCommon :: "'a list \<Rightarrow> 'a list \<Rightarrow> 'a list \<times> 'a list" where
  "dropCommon (x # xs) (y # ys) = (if x = y then dropCommon xs ys else (x # xs, y # ys))"
| "dropCommon xs ys = (xs, ys)"

text \<open>
  \<^verbatim>\<open>path.relative(from, to)\<close>: both paths are resolved, their common leading segments
  dropped, and one \<^verbatim>\<open>..\<close> is emitted for every segment left of \<open>from\<close>.
\<close>

definition path_relative :: "string \<Rightarrow> string \<Rightarrow> string \<Rightarrow> string" where
  "path_relative cwd from_path to_path =
     (if from_path = to_path then []
      else let f = path_resolve cwd [from_path]; t = path_resolve cwd [to_path]
           in if f = t then []
              else (case dropCommon (filter (\<lambda>s. s \<noteq> []) (splitOn CHR ''/'' f))
                                    (filter (\<lambda>s. s \<noteq> []) (splitOn CHR ''/'' t)) of
                      (fs, ts) \<Rightarrow> joinWith ''/'' (replicate (length fs) ''..'' @ ts)))"

text \<open>
  \<^verbatim>\<open>path.dirname\<close>: trailing slashes are skipped, then the last segment, and what stands
  before the slash that ends the scan is returned; the scan never looks at index 0.
\<close>

definition path_dirname :: "string \<Rightarrow> string" where
  "path_dirname p =
     (if p = [] then ''.''
      else let hasRoot = (hd p = CHR ''/'');
               r = dropWhile (\<lambda>c. c \<noteq> CHR ''/'') (dropWhile (\<lambda>c. c = CHR ''/'') (rev (tl p)))
           in if r = [] then (if hasRoot then ''/'' else ''.'')
              else if hasRoot \<and> tl r = [] then ''//''
              else hd p # rev (tl r))"

section \<open>Unified paths (\<^verbatim>\<open>generateUnifiedPath\<close>, both step files)\<close>

text \<open>
  \<^verbatim>\<open>name.toLowerCase().replace(/[^a-z0-9]+/g, '-').replace(/^-|-$/g, '')\<close>.
  \<^verbatim>\<open>toLowerCase\<close> maps the ASCII capitals and leaves every other 8-bit character as it
  is. The first replacement turns every maximal run of characters outside \<^verbatim>\<open>[a-z0-9]\<close>
  into one dash; the second removes a dash at the start and then a dash at the end.
\<close>

definition toLowerChar :: "char \<Rightarrow> char" where
  "toLowerChar c =
     (if CHR ''A'' \<le> c \<and> c \<le> CHR ''Z'' then char_of (of_char c + (32::nat)) else c)"

definition toLowerCase :: "string \<Rightarrow> string" where
  "toLowerCase s = map toLowerChar s"

definition isAlnumLower :: "char \<Rightarrow> bool" where
  "isAlnumLower c \<longleftrightarrow> (CHR ''a'' \<le> c \<and> c \<le> CHR ''z'') \<or> (CHR ''0'' \<le> c \<and> c \<le> CHR ''9'')"

function replaceRuns :: "string \<Rightarrow> string" where
  "replaceRuns [] = []"
| "replaceRuns (c # s) =
     (if isAlnumLower c then c # replaceRuns s
      else CHR ''-'' # replaceRuns (dropWhile (\<lambda>d. \<not> isAlnumLower d) s))"
  by pat_completeness auto
termination
  by (relation "measure length") (auto simp: le_imp_less_Suc length_dropWhile_le)

definition stripEdgeDashes :: "string \<Rightarrow> string" where
  "stripEdgeDashes s =
     (let s1 = (if s \<noteq> [] \<and> hd s = CHR ''-'' then tl s else s)
      in if s1 \<noteq> [] \<and> last s1 = CHR ''-'' then butlast s1 else s1)"

definition slug :: "string \<Rightarrow> string" where
  "slug name = stripEdgeDashes (replaceRuns (toLowerCase name))"

text \<open>
  \<^verbatim>\<open>generateUnifiedPath(name, entityType, baseDir = 'merged')\<close>. No caller passes
  \<^verbatim>\<open>baseDir\<close>.
\<close>

definition generateUnifiedPath :: "string \<Rightarrow> string \<Rightarrow> string \<Rightarrow> string" where
  "generateUnifiedPath name entityType baseDir =
     (let folder =
        (if entityType = ''component'' then path_join [baseDir, ''components'']
         else if entityType = ''hook'' then path_join [baseDir, ''hooks'']
         else if entityType = ''context'' then path_join [baseDir, ''contexts'']
         else if entityType = ''utility'' then path_join [baseDir, ''utils'']
         else path_join [baseDir, ''common''])
      in path_join [folder, slug name @ ''.ts''])"

section \<open>The per-file analysis record\<close>

text \<open>
  \<^verbatim>\<open>ScannedFile\<close> and \<^verbatim>\<open>ASTDependency\<close> (modules/analyzer), with the fields the
  modelled functions read. \<^verbatim>\<open>declaredTypes\<close> and \<^verbatim>\<open>typesUsedInAnnotations\<close> are
  guarded against \<^verbatim>\<open>undefined\<close> where they are read, with the effect of an empty list.
\<close>

type_synonym name_count = "string \<times> nat"

record ScannedFile =
  absolutePath :: string
  relativePath :: string
  extension :: string
  inferredRole :: "string option"
  inferredFrameworkSpecific :: "string option"

record import_rec =
  imp_name :: string
  imp_path :: string
  importedAs :: "string option"

datatype export_type = ExpFunction | ExpVariable | ExpClass | ExpComponent | ExpDefault | ExpReExport

record export_rec =
  exp_name :: string
  exp_type :: export_type

record component_rec =
  comp_name :: string
  comp_isExported :: bool
  isFunctional :: bool
  inferredHOC :: "string option"

datatype context_type = Provider | Consumer | ContextDef

record context_api =
  ctx_name :: string
  ctx_type :: context_type

record declared_type =
  dt_name :: string
  dt_isExported :: bool

record ASTDependency =
  fileRec :: ScannedFile
  fa_imports :: "import_rec list"
  exports :: "export_rec list"
  components :: "component_rec list"
  contextAPIs :: "context_api list"
  jsxElementsUsed :: "name_count list"
  reactHooksUsed :: "name_count list"
  declaredTypes :: "declared_type list"
  typesUsedInAnnotations :: "name_count list"
  loc :: nat

section \<open>Conflicts (resolveStep.ts, resolveAndMergeStep.ts)\<close>

datatype severity = SevError | SevWarning

datatype conflict_type =
    NameCollision | RoleMismatch | ComponentStructuralDifference
  | ComponentHookProfileMismatch | ComponentJsxProfileMismatch | ComponentHocMismatch
  | UtilityLocDifference | ContextTypeMismatch | OtherConflict

text \<open>The \<^verbatim>\<open>details\<close> object of a conflict, one constructor per shape the detector builds.\<close>

datatype conflict_details =
    DRoles "(string \<times> string) list"
  | DLocs "(string \<times> nat) list"
  | DTypes "(string \<times> string) list"
  | DJsx string "name_count list" string "name_count list"
  | DHooks string "name_count list" string "name_count list"
  | DHocs string "string list" string "string list"
  | DContexts string "context_api list" string "context_api list"

record MergeConflict =
  ctype :: conflict_type
  severity :: severity
  message :: string
  details :: conflict_details
  relatedFiles :: "string list"

record MergeConflictReport =
  hasConflicts :: bool
  criticalErrors :: "MergeConflict list"
  warnings :: "MergeConflict list"
  totalConflicts :: nat

datatype entity_type = Component | Hook | ContextEntity | Utility

fun entity_type_str :: "entity_type \<Rightarrow> string" where
  "entity_type_str Component = ''component''"
| "entity_type_str Hook = ''hook''"
| "entity_type_str ContextEntity = ''context''"
| "entity_type_str Utility = ''utility''"

text \<open>
  \<^verbatim>\<open>compareNameCountProfiles\<close>: equal lengths, equal map sizes, and every entry of the
  first map found with the same count in the second.
\<close>

definition compareNameCountProfiles :: "name_count list \<Rightarrow> name_count list \<Rightarrow> bool" where
  "compareNameCountProfiles profile1 profile2 =
     (if length profile1 \<noteq> length profile2 then False
      else let map1 = js_Map profile1; map2 = js_Map profile2 in
        if length map1 \<noteq> length map2 then False
        else list_all (\<lambda>(name, count). map_of map2 name = Some count) map1)"

text \<open>\<^verbatim>\<open>analysis.file.inferredRole || 'unknown'\<close>.\<close>

definition roleOf :: "ASTDependency \<Rightarrow> string" where
  "roleOf a = or_else (inferredRole (fileRec a)) ''unknown''"

text \<open>
  \<^verbatim>\<open>analysis.components.filter(c => c.name === name && c.inferredHOC).map(c => c.inferredHOC!)\<close>
\<close>

definition hocsOf :: "string \<Rightarrow> ASTDependency \<Rightarrow> string list" where
  "hocsOf name a =
     map (\<lambda>c. the (inferredHOC c))
       (filter (\<lambda>c. comp_name c = name \<and> truthy_opt (inferredHOC c)) (components a))"

text \<open>
  \<^verbatim>\<open>analysis.contextAPIs.find(c => c.name === name && c.type === 'Context')?.type\<close>
\<close>

definition contextTypeOf :: "string \<Rightarrow> ASTDependency \<Rightarrow> context_type option" where
  "contextTypeOf name a =
     map_option ctx_type (find (\<lambda>c. ctx_name c = name \<and> ctx_type c = ContextDef) (contextAPIs a))"

text \<open>
  The state of the detector's loop: the conflicts pushed so far and \<^verbatim>\<open>canBeMerged\<close>.
  \<open>detectStep\<close> is one iteration of the loop of \<^verbatim>\<open>detectConflictsForEntity\<close>, comparing
  the analysis at index \<open>i \<ge> 1\<close> with the first one. Each check of the loop body is a
  function of its own, in the order of the source; the \<^verbatim>\<open>continue\<close> of the component
  branch ends the iteration with what was pushed before it.
\<close>

type_synonym detect_state = "MergeConflict list \<times> bool"

definition pathOf :: "ASTDependency \<Rightarrow> string" where
  "pathOf a = relativePath (fileRec a)"

definition functionalStr :: "bool \<Rightarrow> string" where
  "functionalStr b = (if b then ''functional'' else ''class'')"

text \<open>\<^verbatim>\<open>conflicts.push(c)\<close> and \<^verbatim>\<open>canBeMerged = false\<close>.\<close>

definition push :: "MergeConflict \<Rightarrow> detect_state \<Rightarrow> detect_state" where
  "push c st = (fst st @ [c], snd st)"

definition blockMerge :: "detect_state \<Rightarrow> detect_state" where
  "blockMerge st = (fst st, False)"

text \<open>Role mismatch: critical error.\<close>

definition checkRole ::
  "string \<Rightarrow> entity_type \<Rightarrow> ASTDependency \<Rightarrow> ASTDependency \<Rightarrow> detect_state \<Rightarrow> detect_state" where
  "checkRole name entityType firstAnalysis currentAnalysis st =
     (if roleOf firstAnalysis \<noteq> roleOf currentAnalysis
      then blockMerge (push
        \<lparr>ctype = RoleMismatch, severity = SevError,
         message = ''Shared '' @ entity_type_str entityType @ '' '' @ quoted name
                   @ '' has conflicting inferred roles.'',
         details = DRoles (obj2 (pathOf firstAnalysis) (roleOf firstAnalysis)
                                (pathOf currentAnalysis) (roleOf currentAnalysis)),
         relatedFiles = [pathOf firstAnalysis, pathOf currentAnalysis]\<rparr> st)
      else st)"

text \<open>LOC difference: warning.\<close>

definition checkLoc ::
  "string \<Rightarrow> entity_type \<Rightarrow> ASTDependency \<Rightarrow> ASTDependency \<Rightarrow> detect_state \<Rightarrow> detect_state" where
  "checkLoc name entityType firstAnalysis currentAnalysis st =
     (if loc firstAnalysis \<noteq> loc currentAnalysis
      then push
        \<lparr>ctype = UtilityLocDifference, severity = SevWarning,
         message = ''Shared '' @ entity_type_str entityType @ '' '' @ quoted name
                   @ '' has different Lines of Code.'',
         details = DLocs (obj2 (pathOf firstAnalysis) (loc firstAnalysis)
                               (pathOf currentAnalysis) (loc currentAnalysis)),
         relatedFiles = [pathOf firstAnalysis, pathOf currentAnalysis]\<rparr> st
      else st)"

text \<open>Type difference (functional vs class): critical error.\<close>

definition checkComponentType ::
  "string \<Rightarrow> ASTDependency \<Rightarrow> ASTDependency \<Rightarrow> component_rec \<Rightarrow> component_rec
     \<Rightarrow> detect_state \<Rightarrow> detect_state" where
  "checkComponentType name firstAnalysis currentAnalysis firstComponent currentComponent st =
     (if isFunctional firstComponent \<noteq> isFunctional currentComponent
      then blockMerge (push
        \<lparr>ctype = ComponentStructuralDifference, severity = SevError,
         message = ''Shared component '' @ quoted name
                   @ '' has conflicting component types (Functional vs Class).'',
         details = DTypes (obj2 (pathOf firstAnalysis) (functionalStr (isFunctional firstComponent))
                                (pathOf currentAnalysis) (functionalStr (isFunctional currentComponent))),
         relatedFiles = [pathOf firstAnalysis, pathOf currentAnalysis]\<rparr> st)
      else st)"

text \<open>JSX profile mismatch: warning.\<close>

definition checkJsxProfile ::
  "string \<Rightarrow> ASTDependency \<Rightarrow> ASTDependency \<Rightarrow> detect_state \<Rightarrow> detect_state" where
  "checkJsxProfile name firstAnalysis currentAnalysis st =
     (if \<not> compareNameCountProfiles (jsxElementsUsed firstAnalysis) (jsxElementsUsed currentAnalysis)
      then push
        \<lparr>ctype = ComponentJsxProfileMismatch, severity = SevWarning,
         message = ''Shared component '' @ quoted name @ '' renders different JSX elements.'',
         details = DJsx (pathOf firstAnalysis) (jsxElementsUsed firstAnalysis)
                        (pathOf currentAnalysis) (jsxElementsUsed currentAnalysis),
         relatedFiles = [pathOf firstAnalysis, pathOf currentAnalysis]\<rparr> st
      else st)"

text \<open>Hook profile mismatch: warning (the message differs for components and hooks).\<close>

definition checkHookProfile ::
  "string \<Rightarrow> string \<Rightarrow> ASTDependency \<Rightarrow> ASTDependency \<Rightarrow> detect_state \<Rightarrow> detect_state" where
  "checkHookProfile msg name firstAnalysis currentAnalysis st =
     (if \<not> compareNameCountProfiles (reactHooksUsed firstAnalysis) (reactHooksUsed currentAnalysis)
      then push
        \<lparr>ctype = ComponentHookProfileMismatch, severity = SevWarning,
         message = msg,
         details = DHooks (pathOf firstAnalysis) (reactHooksUsed firstAnalysis)
                          (pathOf currentAnalysis) (reactHooksUsed currentAnalysis),
         relatedFiles = [pathOf firstAnalysis, pathOf currentAnalysis]\<rparr> st
      else st)"

text \<open>
  HOC mismatch: warning. \<^verbatim>\<open>JSON.stringify(firstHOCs.sort()) !== JSON.stringify(currentHOCs.sort())\<close>:
  \<^verbatim>\<open>sort()\<close> orders strings by their code units and \<^verbatim>\<open>JSON.stringify\<close> is injective on
  arrays of strings, so the test compares the sorted lists. The arrays are sorted in
  place, so the details carry the sorted lists.
\<close>

definition checkHocs ::
  "string \<Rightarrow> ASTDependency \<Rightarrow> ASTDependency \<Rightarrow> detect_state \<Rightarrow> detect_state" where
  "checkHocs name firstAnalysis currentAnalysis st =
     (let firstHOCs = sort (hocsOf name firstAnalysis);
          currentHOCs = sort (hocsOf name currentAnalysis)
      in if firstHOCs \<noteq> currentHOCs
         then push
           \<lparr>ctype = ComponentHocMismatch, severity = SevWarning,
            message = ''Shared component '' @ quoted name
                      @ '' is wrapped by different Higher-Order Components.'',
            details = DHocs (pathOf firstAnalysis) firstHOCs (pathOf currentAnalysis) currentHOCs,
            relatedFiles = [pathOf firstAnalysis, pathOf currentAnalysis]\<rparr> st
         else st)"

text \<open>Context type mismatch: warning.\<close>

definition checkContextType ::
  "string \<Rightarrow> ASTDependency \<Rightarrow> ASTDependency \<Rightarrow> detect_state \<Rightarrow> detect_state" where
  "checkContextType name firstAnalysis currentAnalysis st =
     (if contextTypeOf name firstAnalysis \<noteq> contextTypeOf name currentAnalysis
      then push
        \<lparr>ctype = ContextTypeMismatch, severity = SevWarning,
         message = ''Shared context '' @ quoted name
                   @ '' has different context types (e.g., inferred initial values).'',
         details = DContexts (pathOf firstAnalysis) (contextAPIs firstAnalysis)
                             (pathOf currentAnalysis) (contextAPIs currentAnalysis),
         relatedFiles = [pathOf firstAnalysis, pathOf currentAnalysis]\<rparr> st
      else st)"

text \<open>The checks specific to the entity type.\<close>

definition checkSpecific ::
  "string \<Rightarrow> entity_type \<Rightarrow> ASTDependency \<Rightarrow> ASTDependency \<Rightarrow> detect_state \<Rightarrow> detect_state" where
  "checkSpecific name entityType firstAnalysis currentAnalysis st =
     (case entityType of
        Component \<Rightarrow>
          (case (find (\<lambda>c. comp_name c = name) (components firstAnalysis),
                 find (\<lambda>c. comp_name c = name) (components currentAnalysis)) of
             (Some firstComponent, Some currentComponent) \<Rightarrow>
               checkHocs name firstAnalysis currentAnalysis
                (checkHookProfile (''Shared component '' @ quoted name @ '' uses different React Hooks.'')
                   name firstAnalysis currentAnalysis
                  (checkJsxProfile name firstAnalysis currentAnalysis
                    (checkComponentType name firstAnalysis currentAnalysis
                       firstComponent currentComponent st)))
           | _ \<Rightarrow> st)
      | Hook \<Rightarrow>
          checkHookProfile
            (''Shared hook '' @ quoted name @ '' uses different React Hooks in its definition.'')
            name firstAnalysis currentAnalysis st
      | ContextEntity \<Rightarrow> checkContextType name firstAnalysis currentAnalysis st
      | Utility \<Rightarrow> st)"

definition detectStep ::
  "string \<Rightarrow> entity_type \<Rightarrow> ASTDependency \<Rightarrow> ASTDependency \<Rightarrow> detect_state \<Rightarrow> detect_state" where
  "detectStep name entityType firstAnalysis currentAnalysis st =
     checkSpecific name entityType firstAnalysis currentAnalysis
       (checkLoc name entityType firstAnalysis currentAnalysis
         (checkRole name entityType firstAnalysis currentAnalysis st))"

text \<open>
  \<^verbatim>\<open>detectConflictsForEntity(name, analyses, entityType)\<close>. On an empty array
  \<^verbatim>\<open>analyses[0].file\<close> throws a \<^verbatim>\<open>TypeError\<close>; the aggregation never builds an empty
  group.
\<close>

definition detectConflictsForEntity ::
  "string \<Rightarrow> ASTDependency list \<Rightarrow> entity_type \<Rightarrow> js_error + detect_state" where
  "detectConflictsForEntity name analyses entityType =
     (case analyses of
        [] \<Rightarrow> Inl (TypeError ''Cannot read properties of undefined (reading 'file')'')
      | firstAnalysis # others \<Rightarrow>
          Inr (fold (detectStep name entityType firstAnalysis) others ([], True)))"

text \<open>The conflict report compiled from all collected conflicts (both step files).\<close>

definition conflictReport :: "MergeConflict list \<Rightarrow> MergeConflictReport" where
  "conflictReport allConflicts =
     \<lparr>hasConflicts = (length allConflicts > 0),
      criticalErrors = filter (\<lambda>c. severity c = SevError) allConflicts,
      warnings = filter (\<lambda>c. severity c = SevWarning) allConflicts,
      totalConflicts = length allConflicts\<rparr>"

section \<open>The dependency graph (dependencyGraphBuilder.ts)\<close>

datatype edge_type =
    Import | DynamicImport | Reference | ContextUsage | HocUsage | RenderUsage | TypeDependency

fun edge_type_str :: "edge_type \<Rightarrow> string" where
  "edge_type_str Import = ''import''"
| "edge_type_str DynamicImport = ''dynamic-import''"
| "edge_type_str Reference = ''reference''"
| "edge_type_str ContextUsage = ''context-usage''"
| "edge_type_str HocUsage = ''hoc-usage''"
| "edge_type_str RenderUsage = ''render-usage''"
| "edge_type_str TypeDependency = ''type-dependency''"

text \<open>
  \<^verbatim>\<open>DependencyEdge\<close>. Every edge the builder pushes sets \<^verbatim>\<open>importedNames\<close>, so the field
  is a list here; \<^verbatim>\<open>weight\<close> and \<^verbatim>\<open>reason\<close> stay optional.
\<close>

record DependencyEdge =
  edge_from :: string
  edge_to :: string
  edge_type :: edge_type
  weight :: "nat option"
  importedNames :: "string list"
  reason :: "string option"

record UnresolvedImport =
  unresolved_from :: string
  importPath :: string
  unresolved_reason :: string

text \<open>
  \<^verbatim>\<open>AnalyzedProject\<close>: \<^verbatim>\<open>analyzedFiles\<close> is an object keyed by relative path, here the
  list of its own entries in the order \<^verbatim>\<open>Object.entries\<close> visits them.
\<close>

type_synonym AnalyzedFileMap = "(string \<times> ASTDependency) list"

record AnalyzedProject =
  projectName :: string
  rootPath :: string
  analyzedFiles :: AnalyzedFileMap

text \<open>
  The test \<^verbatim>\<open>if (analyzedFilesMap[p])\<close>. The map is an object literal, so a lookup also
  finds what \<^verbatim>\<open>Object.prototype\<close> provides; every value found is an object, hence truthy.
\<close>

definition objectPrototypeKeys :: "string list" where
  "objectPrototypeKeys =
     [''constructor'', ''__defineGetter__'', ''__defineSetter__'', ''hasOwnProperty'',
      ''__lookupGetter__'', ''__lookupSetter__'', ''isPrototypeOf'', ''propertyIsEnumerable'',
      ''toString'', ''valueOf'', ''__proto__'', ''toLocaleString'']"

definition hasEntry :: "AnalyzedFileMap \<Rightarrow> string \<Rightarrow> bool" where
  "hasEntry analyzedFilesMap p \<longleftrightarrow>
     map_of analyzedFilesMap p \<noteq> None \<or> p \<in> set objectPrototypeKeys"

definition COMMON_FILE_EXTENSIONS :: "string list" where
  "COMMON_FILE_EXTENSIONS =
     [''.ts'', ''.tsx'', ''.js'', ''.jsx'', ''.json'', ''.css'', ''.scss'', ''.less'', ''.png'', ''.svg'']"

text \<open>
  The two loops at the end of \<^verbatim>\<open>resolveImportPath\<close>: for every base path the exact
  match, then for every extension the path with the extension and the index file.
\<close>

fun tryExtensions :: "AnalyzedFileMap \<Rightarrow> string \<Rightarrow> string list \<Rightarrow> string option" where
  "tryExtensions analyzedFilesMap basePath [] = None"
| "tryExtensions analyzedFilesMap basePath (ext # exts) =
     (let tryPathWithExt = (if endsWith basePath ext then basePath else basePath @ ext)
      in if hasEntry analyzedFilesMap tryPathWithExt then Some tryPathWithExt
         else let tryIndexPath = path_join [basePath, ''index'' @ ext]
              in if hasEntry analyzedFilesMap tryIndexPath then Some tryIndexPath
                 else tryExtensions analyzedFilesMap basePath exts)"

fun tryPaths :: "AnalyzedFileMap \<Rightarrow> string list \<Rightarrow> string option" where
  "tryPaths analyzedFilesMap [] = None"
| "tryPaths analyzedFilesMap (basePath # rest) =
     (if hasEntry analyzedFilesMap basePath then Some basePath
      else case tryExtensions analyzedFilesMap basePath COMMON_FILE_EXTENSIONS of
             Some found \<Rightarrow> Some found
           | None \<Rightarrow> tryPaths analyzedFilesMap rest)"

definition isBareSpecifier :: "string \<Rightarrow> bool" where
  "isBareSpecifier importSource \<longleftrightarrow>
     \<not> startsWith importSource ''.'' \<and> \<not> startsWith importSource ''/''
     \<and> \<not> startsWith importSource ''@''"

definition resolveImportPath ::
  "string \<Rightarrow> string \<Rightarrow> string \<Rightarrow> AnalyzedFileMap \<Rightarrow> string \<Rightarrow> string option" where
  "resolveImportPath cwd fromFilePath importSource analyzedFilesMap projectRootPath =
     (let fromDir = path_dirname fromFilePath
      in if isBareSpecifier importSource then None
         else let possiblePathsToTry =
                (if startsWith importSource ''.''
                 then [path_relative cwd projectRootPath
                         (path_resolve cwd [projectRootPath, fromDir, importSource])]
                 else let baseResolvedPath =
                            (if startsWith importSource ''/'' then drop 1 importSource
                             else if startsWith importSource ''@/'' then drop 2 importSource
                             else importSource)
                      in [baseResolvedPath, path_join [''src'', baseResolvedPath]])
              in tryPaths analyzedFilesMap possiblePathsToTry)"

text \<open>The state of the edge construction: the three variables the loops update.\<close>

record graph_state =
  edges :: "DependencyEdge list"
  processedEdges :: "string set"
  unresolvedImports :: "UnresolvedImport list"

definition edgeId :: "string \<Rightarrow> string \<Rightarrow> edge_type \<Rightarrow> string" where
  "edgeId sourcePath targetPath edgeType =
     sourcePath @ '' -> '' @ targetPath @ '' ('' @ edge_type_str edgeType @ '')''"

text \<open>
  \<^verbatim>\<open>edges.find(e => e.from === s && e.to === t && e.type === k)\<close> followed by a change
  of the edge found: the first matching edge is replaced in the list.
\<close>

definition edgeMatches :: "string \<Rightarrow> string \<Rightarrow> edge_type \<Rightarrow> DependencyEdge \<Rightarrow> bool" where
  "edgeMatches s t k e \<longleftrightarrow> edge_from e = s \<and> edge_to e = t \<and> edge_type e = k"

fun updateFirst :: "('a \<Rightarrow> bool) \<Rightarrow> ('a \<Rightarrow> 'a) \<Rightarrow> 'a list \<Rightarrow> 'a list" where
  "updateFirst P f [] = []"
| "updateFirst P f (x # xs) = (if P x then f x # xs else x # updateFirst P f xs)"

definition addName :: "string \<Rightarrow> DependencyEdge \<Rightarrow> DependencyEdge" where
  "addName n e =
     (if n \<notin> set (importedNames e) then e\<lparr>importedNames := importedNames e @ [n]\<rparr> else e)"

definition addImportName :: "import_rec \<Rightarrow> DependencyEdge \<Rightarrow> DependencyEdge" where
  "addImportName imp e =
     (if truthy_opt (importedAs imp) \<and> the (importedAs imp) \<notin> set (importedNames e)
      then e\<lparr>importedNames := importedNames e @ [the (importedAs imp)]\<rparr>
      else if truthy (imp_name imp) \<and> imp_name imp \<notin> set (importedNames e)
      then e\<lparr>importedNames := importedNames e @ [imp_name imp]\<rparr>
      else e)"

definition pushEdge :: "DependencyEdge \<Rightarrow> graph_state \<Rightarrow> graph_state" where
  "pushEdge e st =
     st\<lparr>edges := edges st @ [e],
        processedEdges := insert (edgeId (edge_from e) (edge_to e) (edge_type e)) (processedEdges st)\<rparr>"

text \<open>2.1 Import edges (static and dynamic): the body of the loop over \<^verbatim>\<open>imports\<close>.\<close>

definition importStep ::
  "string \<Rightarrow> AnalyzedProject \<Rightarrow> string \<Rightarrow> import_rec \<Rightarrow> graph_state \<Rightarrow> graph_state" where
  "importStep cwd analysis sourcePath imp st =
     (let edgeType = (if str_includes (imp_path imp) ''import('' then DynamicImport else Import);
          resolvedTargetPath = resolveImportPath cwd sourcePath (imp_path imp)
                                 (analyzedFiles analysis) (rootPath analysis)
      in if truthy_opt resolvedTargetPath \<and> Some sourcePath \<noteq> resolvedTargetPath
         then (let target = the resolvedTargetPath
               in if edgeId sourcePath target edgeType \<notin> processedEdges st
                  then pushEdge \<lparr>edge_from = sourcePath, edge_to = target, edge_type = edgeType,
                                 weight = None,
                                 importedNames = [or_else (importedAs imp) (imp_name imp)],
                                 reason = None\<rparr> st
                  else st\<lparr>edges := updateFirst (edgeMatches sourcePath target edgeType)
                                      (addImportName imp) (edges st)\<rparr>)
         else if \<not> truthy_opt resolvedTargetPath \<and> isBareSpecifier (imp_path imp) then st
         else if \<not> truthy_opt resolvedTargetPath \<and> sourcePath \<noteq> imp_path imp
         then st\<lparr>unresolvedImports := unresolvedImports st @
                   [\<lparr>unresolved_from = sourcePath, importPath = imp_path imp,
                     unresolved_reason = ''Could not resolve to an internal project file.''\<rparr>]\<rparr>
         else st)"

text \<open>
  The lookup maps built before the edges: component name to the file that exports it,
  type name to the file that exports it (a later file overwrites an earlier one).
\<close>

definition componentExportsMap :: "AnalyzedProject \<Rightarrow> (string \<times> string) list" where
  "componentExportsMap analysis =
     js_Map (concat (map (\<lambda>(relPath, fileAnalysis).
        map (\<lambda>component. (comp_name component, relPath))
            (filter comp_isExported (components fileAnalysis)))
        (analyzedFiles analysis)))"

definition typeExportsMap :: "AnalyzedProject \<Rightarrow> (string \<times> string) list" where
  "typeExportsMap analysis =
     js_Map (concat (map (\<lambda>(relPath, fileAnalysis).
        map (\<lambda>typeDef. (dt_name typeDef, relPath))
            (filter dt_isExported (declaredTypes fileAnalysis)))
        (analyzedFiles analysis)))"

text \<open>
  2.2 Render usage edges and 2.5 type dependency edges have the same loop body, up to
  the map consulted, the edge type and the reason.
\<close>

definition usageStep ::
  "(string \<times> string) list \<Rightarrow> edge_type \<Rightarrow> (string \<Rightarrow> string) \<Rightarrow> string \<Rightarrow> name_count
     \<Rightarrow> graph_state \<Rightarrow> graph_state" where
  "usageStep exportsMap edgeType reasonOf sourcePath used st =
     (case map_of exportsMap (fst used) of
        None \<Rightarrow> st
      | Some resolvedPath \<Rightarrow>
          if truthy resolvedPath \<and> resolvedPath \<noteq> sourcePath
          then (if edgeId sourcePath resolvedPath edgeType \<notin> processedEdges st
                then pushEdge \<lparr>edge_from = sourcePath, edge_to = resolvedPath, edge_type = edgeType,
                               weight = Some (snd used),
                               importedNames = [fst used],
                               reason = Some (reasonOf (fst used))\<rparr> st
                else st\<lparr>edges := updateFirst (edgeMatches sourcePath resolvedPath edgeType)
                                    (addName (fst used)) (edges st)\<rparr>)
          else st)"

definition renderStep ::
  "AnalyzedProject \<Rightarrow> string \<Rightarrow> name_count \<Rightarrow> graph_state \<Rightarrow> graph_state" where
  "renderStep analysis =
     usageStep (componentExportsMap analysis) RenderUsage
       (\<lambda>n. ''Component '' @ quoted n @ '' rendered in JSX.'')"

definition typeStep ::
  "AnalyzedProject \<Rightarrow> string \<Rightarrow> name_count \<Rightarrow> graph_state \<Rightarrow> graph_state" where
  "typeStep analysis =
     usageStep (typeExportsMap analysis) TypeDependency
       (\<lambda>n. ''Type '' @ quoted n @ '' used in type annotations.'')"

text \<open>
  2.3 Context usage edges and 2.4 HOC usage edges: the target is the first analysed file
  (\<^verbatim>\<open>Object.values(...).find\<close>) that defines the context, or exports the HOC; a
  relationship found again changes nothing.
\<close>

definition definitionStep ::
  "AnalyzedProject \<Rightarrow> (ASTDependency \<Rightarrow> bool) \<Rightarrow> edge_type \<Rightarrow> string \<Rightarrow> string \<Rightarrow> string
     \<Rightarrow> graph_state \<Rightarrow> graph_state" where
  "definitionStep analysis defines edgeType usedName reasonText sourcePath st =
     (case find defines (map snd (analyzedFiles analysis)) of
        None \<Rightarrow> st
      | Some definitionFile \<Rightarrow>
          if sourcePath \<noteq> relativePath (fileRec definitionFile)
          then (if edgeId sourcePath (relativePath (fileRec definitionFile)) edgeType
                     \<notin> processedEdges st
                then pushEdge \<lparr>edge_from = sourcePath,
                               edge_to = relativePath (fileRec definitionFile),
                               edge_type = edgeType, weight = None,
                               importedNames = [usedName],
                               reason = Some reasonText\<rparr> st
                else st)
          else st)"

definition context_type_str :: "context_type \<Rightarrow> string" where
  "context_type_str t =
     (case t of Provider \<Rightarrow> ''Provider'' | Consumer \<Rightarrow> ''Consumer'' | ContextDef \<Rightarrow> ''Context'')"

definition contextStep ::
  "AnalyzedProject \<Rightarrow> string \<Rightarrow> context_api \<Rightarrow> graph_state \<Rightarrow> graph_state" where
  "contextStep analysis sourcePath contextAPI st =
     (if ctx_type contextAPI = Provider \<or> ctx_type contextAPI = Consumer
      then definitionStep analysis
             (\<lambda>target. list_ex (\<lambda>api. ctx_name api = ctx_name contextAPI \<and> ctx_type api = ContextDef)
                                (contextAPIs target))
             ContextUsage (ctx_name contextAPI)
             (''Uses React Context '' @ [CHR 0x27] @ ctx_name contextAPI @ [CHR 0x27] @ '' as ''
                @ context_type_str (ctx_type contextAPI))
             sourcePath st
      else st)"

definition hocStep ::
  "AnalyzedProject \<Rightarrow> string \<Rightarrow> component_rec \<Rightarrow> graph_state \<Rightarrow> graph_state" where
  "hocStep analysis sourcePath component st =
     (if truthy_opt (inferredHOC component)
      then definitionStep analysis
             (\<lambda>target. list_ex (\<lambda>exported. Some (exp_name exported) = inferredHOC component
                                       \<and> (exp_type exported = ExpFunction \<or> exp_type exported = ExpVariable))
                                (exports target))
             HocUsage (the (inferredHOC component))
             (''Component '' @ quoted (comp_name component) @ '' is wrapped by HOC ''
                @ quoted (the (inferredHOC component)))
             sourcePath st
      else st)"

text \<open>The body of the loop over the files: the five inner loops, in the source's order.\<close>

definition processFile ::
  "string \<Rightarrow> AnalyzedProject \<Rightarrow> string \<times> ASTDependency \<Rightarrow> graph_state \<Rightarrow> graph_state" where
  "processFile cwd analysis entry st =
     (case entry of (sourcePath, fileAnalysis) \<Rightarrow>
        fold (typeStep analysis sourcePath) (typesUsedInAnnotations fileAnalysis)
          (fold (hocStep analysis sourcePath) (components fileAnalysis)
            (fold (contextStep analysis sourcePath) (contextAPIs fileAnalysis)
              (fold (renderStep analysis sourcePath) (jsxElementsUsed fileAnalysis)
                (fold (importStep cwd analysis sourcePath) (fa_imports fileAnalysis) st)))))"

definition initialGraphState :: graph_state where
  "initialGraphState = \<lparr>edges = [], processedEdges = {}, unresolvedImports = []\<rparr>"

text \<open>
  \<^verbatim>\<open>buildDependencyGraph(analysis)\<close>, step 2 (the edges and the unresolved imports). The
  node list of step 1 is computed from the files alone and read by no later step; it is
  left out.
\<close>

definition buildDependencyGraph :: "string \<Rightarrow> AnalyzedProject \<Rightarrow> graph_state" where
  "buildDependencyGraph cwd analysis =
     fold (processFile cwd analysis) (analyzedFiles analysis) initialGraphState"

section \<open>The merge decision (mergeStep.ts, deepSmartMerge.ts, mergeUtils.ts)\<close>

text \<open>
  The entities the merge step receives. normalizeStep.ts builds them with \<^verbatim>\<open>id\<close>,
  \<^verbatim>\<open>name\<close>, \<^verbatim>\<open>unifiedPath\<close> and \<^verbatim>\<open>normalizedCode\<close> (and \<^verbatim>\<open>type\<close> or \<^verbatim>\<open>contextType\<close>,
  which the merge step does not read). \<^verbatim>\<open>runMergeStep\<close> and \<^verbatim>\<open>deepSmartMerge\<close> also read
  \<^verbatim>\<open>originalPaths\<close> of an entity, which \<^verbatim>\<open>NormalizedEntityBase\<close> does not declare and
  normalizeStep.ts does not set: the field is optional here, \<open>None\<close> being the
  \<^verbatim>\<open>undefined\<close> that reading a missing property gives. Calling a method of that
  \<^verbatim>\<open>undefined\<close> or indexing it throws a \<^verbatim>\<open>TypeError\<close>.

  Left out: \<^verbatim>\<open>isShared\<close> (read for a log line only) and every \<^verbatim>\<open>loc\<close> (JavaScript
  numbers: a line count of generated code, an average of line counts, or \<^verbatim>\<open>undefined\<close>;
  they are copied and summed, no branch reads them), the timestamps and durations, the
  console output.
\<close>

record NormalizedEntity =
  ne_id :: string
  ne_name :: string
  ne_unifiedPath :: string
  normalizedCode :: string
  originalPaths :: "string list option"

datatype merge_status = Merged | SkippedConflict | MergeError | MergedWithWarnings

datatype merge_strategy =
    AutoSelectDominant | AutoCombineDistinct | ManualInterventionRequired
  | SkippedDueToCriticalConflict | StrategyError

text \<open>
  The syntax trees are Babel's. \<open>Ast\<close> holds a parsed tree, \<open>Placeholder\<close> the tree
  \<^verbatim>\<open>t.file(t.program([t.expressionStatement(t.stringLiteral(msg))]))\<close> with its message.
\<close>

datatype 'ast merged_ast = Ast 'ast | Placeholder string

text \<open>
  \<^verbatim>\<open>FinalMergedEntity\<close>. \<^verbatim>\<open>originalPaths\<close> is what the code stores there: in a result
  of \<^verbatim>\<open>deepSmartMerge\<close> the array of \<^verbatim>\<open>e.originalPaths[0]\<close> over the entities (an
  element is \<^verbatim>\<open>undefined\<close> for an empty array), in an entry \<^verbatim>\<open>runMergeStep\<close> builds
  itself \<^verbatim>\<open>entities[0].originalPaths\<close>, which may be \<^verbatim>\<open>undefined\<close>.
\<close>

record 'ast FinalMergedEntity =
  fm_id :: string
  fm_name :: string
  fm_unifiedPath :: string
  mergedAST :: "'ast merged_ast"
  status :: merge_status
  fm_originalPaths :: "string option list option"
  resolvedConflicts :: "MergeConflict list option"
  needsManualReview :: bool
  mergedFromCount :: nat
  mergeStrategyUsed :: "merge_strategy option"
  mergeTransformationLog :: "(string \<times> string) list option"
  mergeQualityScore :: "int option"

text \<open>
  Babel, a parameter of the model: \<open>parse code extension\<close> is \<^verbatim>\<open>parser.parse\<close> with the
  plugins of the extension (\<open>None\<close> when it throws), \<open>generate compact ast\<close> is
  \<^verbatim>\<open>generate(ast, {compact}).code\<close>, or the error the generator throws (it throws on a
  node type it does not know). Both are taken to be functions of their arguments.
\<close>

record 'ast babel =
  parse :: "string \<Rightarrow> string \<Rightarrow> 'ast option"
  generate :: "bool \<Rightarrow> 'ast \<Rightarrow> js_error + string"

definition errorMessage :: "js_error \<Rightarrow> string" where
  "errorMessage err = (case err of TypeError msg \<Rightarrow> msg | Error msg \<Rightarrow> msg)"

text \<open>
  The \<^verbatim>\<open>TypeError\<close> of reading the property \<open>prop\<close> of \<^verbatim>\<open>undefined\<close> (the message is
  the one of V8).
\<close>

definition undefinedRead :: "string \<Rightarrow> js_error" where
  "undefinedRead prop =
     TypeError (''Cannot read properties of undefined (reading '' @ [CHR 0x27] @ prop
                @ [CHR 0x27] @ '')'')"

text \<open>\<^verbatim>\<open>parseCodeToAst\<close> rethrows a parser error with the file path in its message.\<close>

definition parseCodeToAst :: "'ast babel \<Rightarrow> string \<Rightarrow> string \<Rightarrow> string \<Rightarrow> js_error + 'ast" where
  "parseCodeToAst b code filePath fileExtension =
     (case parse b code fileExtension of
        Some ast \<Rightarrow> Inr ast
      | None \<Rightarrow> Inl (Error (''Failed to parse AST for '' @ filePath)))"

text \<open>\<^verbatim>\<open>mergeAsts\<close> is the placeholder of the source: it returns the base tree.\<close>

definition mergeAsts :: "'ast \<Rightarrow> 'ast \<Rightarrow> 'ast" where
  "mergeAsts baseAst incomingAst = baseAst"

text \<open>
  The warnings handed to \<^verbatim>\<open>deepSmartMerge\<close> are folded in first: each becomes a resolved
  conflict and a log entry and costs 5 points; a score below 0 is set to 0. The result
  is \<^verbatim>\<open>resolvedConflicts\<close>, \<^verbatim>\<open>mergeTransformationLog\<close> and \<^verbatim>\<open>mergeQualityScore\<close> as
  they stand before the \<^verbatim>\<open>try\<close> block.
\<close>

type_synonym transformation_log = "(string \<times> string) list"

definition autoResolveStep ::
  "MergeConflict \<Rightarrow> MergeConflict list \<times> transformation_log \<times> int
     \<Rightarrow> MergeConflict list \<times> transformation_log \<times> int" where
  "autoResolveStep warning acc =
     (case acc of (resolved, tlog, score) \<Rightarrow>
        (resolved @ [warning\<lparr>message := ''Auto-resolved: '' @ message warning\<rparr>],
         tlog @ [(''auto-resolve-conflict'', message warning)],
         score - 5))"

definition autoResolve ::
  "MergeConflict list \<Rightarrow> MergeConflict list \<times> transformation_log \<times> int" where
  "autoResolve autoResolvableWarnings =
     (if length autoResolvableWarnings > 0
      then (case fold autoResolveStep autoResolvableWarnings ([], [], 100) of
              (resolved, tlog, score) \<Rightarrow> (resolved, tlog, if score < 0 then 0 else score))
      else ([], [], 100))"

text \<open>
  \<^verbatim>\<open>paths[0]\<close> of an array, and \<^verbatim>\<open>originalAnalyzedFileMap.get(key)\<close>: the map has string
  keys only, so the key \<^verbatim>\<open>undefined\<close> finds nothing.
\<close>

definition firstOriginalPath :: "string list \<Rightarrow> string option" where
  "firstOriginalPath paths = (case paths of [] \<Rightarrow> None | p # _ \<Rightarrow> Some p)"

definition mapGet :: "(string \<Rightarrow> ASTDependency option) \<Rightarrow> string option \<Rightarrow> ASTDependency option" where
  "mapGet fileMap key = (case key of None \<Rightarrow> None | Some p \<Rightarrow> fileMap p)"

text \<open>
  The loop over the incoming entities (index 1 and up). Its state is the tree, the log
  and the score; whatever is thrown leaves the loop with the error and the log written
  so far, which the \<^verbatim>\<open>catch\<close> block reads. \<^verbatim>\<open>finalAst\<close> is a parsed tree here, an
  object, so the test \<^verbatim>\<open>if (finalAst)\<close> holds and its \<^verbatim>\<open>else\<close> branch is not reached.
\<close>

fun mergeIncoming ::
  "'ast babel \<Rightarrow> (string \<Rightarrow> ASTDependency option) \<Rightarrow> NormalizedEntity list
     \<Rightarrow> 'ast \<times> transformation_log \<times> int
     \<Rightarrow> (js_error \<times> transformation_log) + ('ast \<times> transformation_log \<times> int)" where
  "mergeIncoming b fileMap [] acc = Inr acc"
| "mergeIncoming b fileMap (incomingEntity # rest) (finalAst, tlog, score) =
     (case originalPaths incomingEntity of
        None \<Rightarrow> Inl (undefinedRead ''0'', tlog)
      | Some paths \<Rightarrow>
          (case mapGet fileMap (firstOriginalPath paths) of
             None \<Rightarrow>
               mergeIncoming b fileMap rest
                 (finalAst,
                  tlog @ [(''skipped-incoming-entity'',
                          ''Analysis not found for '' @ show_opt (firstOriginalPath paths))],
                  score - 10)
           | Some incomingOriginalAnalysis \<Rightarrow>
               (case parseCodeToAst b (normalizedCode incomingEntity)
                       (absolutePath (fileRec incomingOriginalAnalysis))
                       (extension (fileRec incomingOriginalAnalysis)) of
                  Inl err \<Rightarrow> Inl (err, tlog)
                | Inr incomingAst \<Rightarrow>
                    (let tempMergedAst = mergeAsts finalAst incomingAst
                     in case generate b True finalAst of
                          Inl err \<Rightarrow> Inl (err, tlog)
                        | Inr finalCode \<Rightarrow>
                            (case generate b True tempMergedAst of
                               Inl err \<Rightarrow> Inl (err, tlog)
                             | Inr tempCode \<Rightarrow>
                                 if finalCode \<noteq> tempCode
                                 then mergeIncoming b fileMap rest
                                        (tempMergedAst,
                                         tlog @ [(''ast-combined'',
                                                 ''Combined with '' @ ne_name incomingEntity
                                                   @ '' from ''
                                                   @ show_opt (firstOriginalPath paths))],
                                         score - 2)
                                 else mergeIncoming b fileMap rest (finalAst, tlog, score))))))"

text \<open>The \<^verbatim>\<open>try\<close> block: the dominant entity is parsed, then the others are merged in.\<close>

definition tryMerge ::
  "'ast babel \<Rightarrow> (string \<Rightarrow> ASTDependency option) \<Rightarrow> NormalizedEntity \<Rightarrow> NormalizedEntity list
     \<Rightarrow> transformation_log \<Rightarrow> int
     \<Rightarrow> (js_error \<times> transformation_log) + ('ast \<times> transformation_log \<times> int)" where
  "tryMerge b fileMap dominantEntity others tlog score =
     (case originalPaths dominantEntity of
        None \<Rightarrow> Inl (undefinedRead ''0'', tlog)
      | Some paths \<Rightarrow>
          (case mapGet fileMap (firstOriginalPath paths) of
             None \<Rightarrow>
               Inl (Error (''Original analysis for dominant entity '' @ ne_name dominantEntity
                           @ '' ('' @ show_opt (firstOriginalPath paths) @ '') not found.''),
                    tlog)
           | Some originalFileAnalysis \<Rightarrow>
               (case parseCodeToAst b (normalizedCode dominantEntity)
                       (absolutePath (fileRec originalFileAnalysis))
                       (extension (fileRec originalFileAnalysis)) of
                  Inl err \<Rightarrow> Inl (err, tlog)
                | Inr finalAst \<Rightarrow> mergeIncoming b fileMap others (finalAst, tlog, score))))"

text \<open>
  \<^verbatim>\<open>entitiesToMerge.map(e => e.originalPaths[0])\<close>, which throws at the first entity
  without \<^verbatim>\<open>originalPaths\<close>.
\<close>

fun firstPaths :: "NormalizedEntity list \<Rightarrow> js_error + string option list" where
  "firstPaths [] = Inr []"
| "firstPaths (e # es) =
     (case originalPaths e of
        None \<Rightarrow> Inl (undefinedRead ''0'')
      | Some paths \<Rightarrow>
          (case firstPaths es of
             Inl err \<Rightarrow> Inl err
           | Inr rest \<Rightarrow> Inr (firstOriginalPath paths # rest)))"

text \<open>
  \<^verbatim>\<open>deepSmartMerge(entityName, entitiesToMerge, originalAnalyzedFileMap,
  autoResolvableWarnings)\<close>. \<open>Inr None\<close> is the \<^verbatim>\<open>null\<close> returned for no entities, \<open>Inl\<close>
  the rejection of the promise by what is thrown outside the \<^verbatim>\<open>try\<close> block: by
  \<^verbatim>\<open>generate(finalAst)\<close> after it, or by the \<^verbatim>\<open>map\<close> over the entities inside the
  object literal of the \<^verbatim>\<open>catch\<close> block and of the final result. The test
  \<^verbatim>\<open>if (!finalAst)\<close> after the \<^verbatim>\<open>try\<close> block never holds (the block assigns a parsed
  tree or throws).
\<close>

definition deepSmartMerge ::
  "'ast babel \<Rightarrow> string \<Rightarrow> NormalizedEntity list \<Rightarrow> (string \<Rightarrow> ASTDependency option)
     \<Rightarrow> MergeConflict list \<Rightarrow> js_error + 'ast FinalMergedEntity option" where
  "deepSmartMerge b entityName entitiesToMerge fileMap autoResolvableWarnings =
     (case entitiesToMerge of
        [] \<Rightarrow> Inr None
      | dominantEntity # others \<Rightarrow>
          (case autoResolve autoResolvableWarnings of
             (resolved, tlog0, score0) \<Rightarrow>
               (case tryMerge b fileMap dominantEntity others tlog0 score0 of
                  Inl (err, tlog) \<Rightarrow>
                    (case firstPaths entitiesToMerge of
                       Inl thrown \<Rightarrow> Inl thrown
                     | Inr paths \<Rightarrow>
                         Inr (Some
                           \<lparr>fm_id = ne_id dominantEntity, fm_name = entityName,
                            fm_unifiedPath = ne_unifiedPath dominantEntity,
                            mergedAST = Placeholder (''// Error during merge for '' @ entityName
                                                     @ '': '' @ errorMessage err),
                            status = MergeError,
                            fm_originalPaths = Some paths,
                            resolvedConflicts = None,
                            needsManualReview = True,
                            mergedFromCount = length entitiesToMerge,
                            mergeStrategyUsed = Some StrategyError,
                            mergeTransformationLog = Some tlog,
                            mergeQualityScore = Some 0\<rparr>))
                | Inr (finalAst, tlog, score) \<Rightarrow>
                    (case generate b False finalAst of
                       Inl thrown \<Rightarrow> Inl thrown
                     | Inr finalMergedCode \<Rightarrow>
                         (case firstPaths entitiesToMerge of
                            Inl thrown \<Rightarrow> Inl thrown
                          | Inr paths \<Rightarrow>
                              Inr (Some
                                \<lparr>fm_id = ne_id dominantEntity, fm_name = entityName,
                                 fm_unifiedPath = ne_unifiedPath dominantEntity,
                                 mergedAST = Ast finalAst,
                                 status = (if length resolved > 0 then MergedWithWarnings
                                           else Merged),
                                 fm_originalPaths = Some paths,
                                 resolvedConflicts =
                                   (if length resolved > 0 then Some resolved else None),
                                 needsManualReview = (score < 70 \<or> length resolved > 0),
                                 mergedFromCount = length entitiesToMerge,
                                 mergeStrategyUsed =
                                   Some (if length entitiesToMerge > 1 then AutoCombineDistinct
                                         else AutoSelectDominant),
                                 mergeTransformationLog =
                                   (if length tlog > 0 then Some tlog else None),
                                 mergeQualityScore = Some score\<rparr>))))))"

text \<open>
  \<^verbatim>\<open>groupNormalizedEntities\<close>: the entities grouped by \<^verbatim>\<open>id\<close>, groups in the order of
  their first member. A group is its id, its first member and the members after it.
\<close>

type_synonym entity_group = "string \<times> NormalizedEntity \<times> NormalizedEntity list"

fun addToGroup :: "NormalizedEntity \<Rightarrow> entity_group list \<Rightarrow> entity_group list" where
  "addToGroup e [] = [(ne_id e, e, [])]"
| "addToGroup e ((gid, first, others) # groups) =
     (if gid = ne_id e then (gid, first, others @ [e]) # groups
      else (gid, first, others) # addToGroup e groups)"

record NormalizedEntities =
  normalizedComponents :: "NormalizedEntity list"
  normalizedHooks :: "NormalizedEntity list"
  normalizedUtilities :: "NormalizedEntity list"
  normalizedContexts :: "NormalizedEntity list"

definition groupNormalizedEntities :: "NormalizedEntities \<Rightarrow> entity_group list" where
  "groupNormalizedEntities n =
     fold addToGroup
       (normalizedComponents n @ normalizedHooks n @ normalizedUtilities n @ normalizedContexts n) []"

record MergeStepInput =
  normalizedEntities :: NormalizedEntities
  analyzedWorkspaces :: "AnalyzedProject list"
  mergeConflicts :: MergeConflictReport

text \<open>
  \<^verbatim>\<open>DeepMergeSummary\<close> without the line count, the durations and the post-merge
  validation, which is a stub returning \<^verbatim>\<open>'skipped'\<close>.
\<close>

record DeepMergeSummary =
  totalEntitiesAttemptedToMerge :: nat
  totalMergedSuccessfully :: nat
  totalSkippedDueToConflicts :: nat
  totalFailedDuringMergeProcess :: nat
  totalAutoResolvedConflicts :: nat
  autoResolvedConflictsByType :: "(conflict_type \<times> nat) list"
  entitiesWithWarningsAfterMerge :: "string list"

text \<open>
  The state of the loop of \<^verbatim>\<open>runMergeStep\<close>. \<open>deepSmartMergeCalls\<close> is not a variable of
  the source: it records the \<^verbatim>\<open>entitiesToMerge\<close> of every call of \<^verbatim>\<open>deepSmartMerge\<close>
  the loop makes.
\<close>

record 'ast merge_state =
  finalMergedEntities :: "'ast FinalMergedEntity list"
  mergeSummary :: DeepMergeSummary
  deepSmartMergeCalls :: "NormalizedEntity list list"

text \<open>
  \<^verbatim>\<open>list.filter(c => entities[0].originalPaths.some(op => c.relatedFiles.includes(op)))\<close>:
  the callback runs for every conflict of the list, and throws when the first entity
  has no \<^verbatim>\<open>originalPaths\<close>.
\<close>

definition conflictsOf :: "NormalizedEntity \<Rightarrow> MergeConflict list \<Rightarrow> js_error + MergeConflict list" where
  "conflictsOf firstEntity cs =
     (case originalPaths firstEntity of
        None \<Rightarrow> if cs = [] then Inr [] else Inl (undefinedRead ''some'')
      | Some paths \<Rightarrow>
          Inr (filter (\<lambda>c. list_ex (\<lambda>op. op \<in> set (relatedFiles c)) paths) cs))"

definition countByType :: "MergeConflict \<Rightarrow> (conflict_type \<times> nat) list \<Rightarrow> (conflict_type \<times> nat) list" where
  "countByType conf counts =
     AList.update (ctype conf) (case map_of counts (ctype conf) of None \<Rightarrow> 1 | Some k \<Rightarrow> k + 1) counts"

text \<open>The bookkeeping after \<^verbatim>\<open>deepSmartMerge\<close> returned an entity.\<close>

definition recordMerged :: "'ast FinalMergedEntity \<Rightarrow> DeepMergeSummary \<Rightarrow> DeepMergeSummary" where
  "recordMerged mergedEntity s =
     (if status mergedEntity = Merged \<or> status mergedEntity = MergedWithWarnings
      then (let s1 = s\<lparr>totalMergedSuccessfully := totalMergedSuccessfully s + 1\<rparr>;
                s2 = (case resolvedConflicts mergedEntity of
                        None \<Rightarrow> s1
                      | Some rc \<Rightarrow>
                          s1\<lparr>totalAutoResolvedConflicts := totalAutoResolvedConflicts s1 + length rc,
                             autoResolvedConflictsByType :=
                               fold countByType rc (autoResolvedConflictsByType s1)\<rparr>)
            in if status mergedEntity = MergedWithWarnings \<or> needsManualReview mergedEntity
               then s2\<lparr>entitiesWithWarningsAfterMerge :=
                         entitiesWithWarningsAfterMerge s2 @ [fm_id mergedEntity]\<rparr>
               else s2)
      else if status mergedEntity = SkippedConflict
      then s\<lparr>totalSkippedDueToConflicts := totalSkippedDueToConflicts s + 1\<rparr>
      else if status mergedEntity = MergeError
      then s\<lparr>totalFailedDuringMergeProcess := totalFailedDuringMergeProcess s + 1\<rparr>
      else s)"

text \<open>
  The entry \<^verbatim>\<open>runMergeStep\<close> pushes when \<^verbatim>\<open>deepSmartMerge\<close> returned \<^verbatim>\<open>null\<close> and when
  it threw; the two differ in the message of the placeholder tree.
\<close>

definition failedEntry ::
  "string \<Rightarrow> string \<Rightarrow> NormalizedEntity \<Rightarrow> NormalizedEntity list \<Rightarrow> string
     \<Rightarrow> 'ast FinalMergedEntity" where
  "failedEntry unifiedId entityName firstEntity others msg =
     \<lparr>fm_id = unifiedId, fm_name = entityName,
      fm_unifiedPath = ne_unifiedPath firstEntity,
      mergedAST = Placeholder (msg @ entityName),
      status = MergeError,
      fm_originalPaths = map_option (map Some) (originalPaths firstEntity),
      resolvedConflicts = None,
      needsManualReview = True,
      mergedFromCount = length (firstEntity # others),
      mergeStrategyUsed = Some StrategyError,
      mergeTransformationLog = Some [],
      mergeQualityScore = Some 0\<rparr>"

definition recordFailed :: "'ast FinalMergedEntity \<Rightarrow> 'ast merge_state \<Rightarrow> 'ast merge_state" where
  "recordFailed entry st =
     st\<lparr>mergeSummary := (mergeSummary st)
          \<lparr>totalFailedDuringMergeProcess := totalFailedDuringMergeProcess (mergeSummary st) + 1\<rparr>,
        finalMergedEntities := finalMergedEntities st @ [entry]\<rparr>"

text \<open>
  The body of the loop over the groups. The two filters stand before the \<^verbatim>\<open>try\<close>: what
  they throw ends \<^verbatim>\<open>runMergeStep\<close> (\<open>Inl\<close>). What \<^verbatim>\<open>deepSmartMerge\<close> throws is caught,
  and an error entry is pushed.
\<close>

definition mergeGroup ::
  "'ast babel \<Rightarrow> (string \<Rightarrow> ASTDependency option) \<Rightarrow> MergeConflictReport \<Rightarrow> entity_group
     \<Rightarrow> 'ast merge_state \<Rightarrow> js_error + 'ast merge_state" where
  "mergeGroup b fileMap report grp st =
     (case grp of (unifiedId, firstEntity, others) \<Rightarrow>
        (let entityName = ne_name firstEntity
         in case conflictsOf firstEntity (criticalErrors report) of
              Inl thrown \<Rightarrow> Inl thrown
            | Inr criticalConflicts \<Rightarrow>
                (case conflictsOf firstEntity (warnings report) of
                   Inl thrown \<Rightarrow> Inl thrown
                 | Inr warningsToAutoResolve \<Rightarrow>
                     if length criticalConflicts > 0
                     then Inr (st\<lparr>mergeSummary := (mergeSummary st)
                                    \<lparr>totalSkippedDueToConflicts :=
                                       totalSkippedDueToConflicts (mergeSummary st) + 1\<rparr>,
                                  finalMergedEntities := finalMergedEntities st @
                                    [\<lparr>fm_id = unifiedId, fm_name = entityName,
                                      fm_unifiedPath = ne_unifiedPath firstEntity,
                                      mergedAST =
                                        Placeholder (''// Merge skipped for '' @ entityName
                                                     @ '' due to critical conflicts.''),
                                      status = SkippedConflict,
                                      fm_originalPaths =
                                        map_option (map Some) (originalPaths firstEntity),
                                      resolvedConflicts = None,
                                      needsManualReview = True,
                                      mergedFromCount = length (firstEntity # others),
                                      mergeStrategyUsed = Some SkippedDueToCriticalConflict,
                                      mergeTransformationLog = Some [],
                                      mergeQualityScore = None\<rparr>]\<rparr>)
                     else (let called = st\<lparr>deepSmartMergeCalls :=
                                             deepSmartMergeCalls st @ [firstEntity # others]\<rparr>
                           in case deepSmartMerge b entityName (firstEntity # others) fileMap
                                     warningsToAutoResolve of
                                Inr (Some mergedEntity) \<Rightarrow>
                                  Inr (called
                                        \<lparr>finalMergedEntities :=
                                           finalMergedEntities called @ [mergedEntity],
                                         mergeSummary :=
                                           recordMerged mergedEntity (mergeSummary called)\<rparr>)
                              | Inr None \<Rightarrow>
                                  Inr (recordFailed
                                         (failedEntry unifiedId entityName firstEntity others
                                            ''// Unknown error during merge for '') called)
                              | Inl thrown \<Rightarrow>
                                  Inr (recordFailed
                                         (failedEntry unifiedId entityName firstEntity others
                                            ''// Critical error during merge for '') called)))))"

fun mergeGroups ::
  "'ast babel \<Rightarrow> (string \<Rightarrow> ASTDependency option) \<Rightarrow> MergeConflictReport \<Rightarrow> entity_group list
     \<Rightarrow> 'ast merge_state \<Rightarrow> js_error + 'ast merge_state" where
  "mergeGroups b fileMap report [] st = Inr st"
| "mergeGroups b fileMap report (grp # rest) st =
     (case mergeGroup b fileMap report grp st of
        Inl thrown \<Rightarrow> Inl thrown
      | Inr st' \<Rightarrow> mergeGroups b fileMap report rest st')"

text \<open>
  \<^verbatim>\<open>originalAnalyzedFileMap\<close>: every analysed file of every workspace by its relative
  path, a later entry overwriting an earlier one.
\<close>

definition originalAnalyzedFileMap :: "AnalyzedProject list \<Rightarrow> string \<Rightarrow> ASTDependency option" where
  "originalAnalyzedFileMap workspaces = map_of (rev (concat (map analyzedFiles workspaces)))"

definition initialMergeState :: "nat \<Rightarrow> 'ast merge_state" where
  "initialMergeState n =
     \<lparr>finalMergedEntities = [],
      mergeSummary = \<lparr>totalEntitiesAttemptedToMerge = n, totalMergedSuccessfully = 0,
                      totalSkippedDueToConflicts = 0, totalFailedDuringMergeProcess = 0,
                      totalAutoResolvedConflicts = 0,
                      autoResolvedConflictsByType = [], entitiesWithWarningsAfterMerge = []\<rparr>,
      deepSmartMergeCalls = []\<rparr>"

text \<open>
  \<^verbatim>\<open>runMergeStep\<close>: \<open>Inl\<close> when the promise rejects, else the entries and the summary it
  returns. The validation after the loop is two stubs and changes neither.
\<close>

definition runMergeStep :: "'ast babel \<Rightarrow> MergeStepInput \<Rightarrow> js_error + 'ast merge_state" where
  "runMergeStep b input =
     (let groupedEntities = groupNormalizedEntities (normalizedEntities input)
      in mergeGroups b (originalAnalyzedFileMap (analyzedWorkspaces input)) (mergeConflicts input)
           groupedEntities (initialMergeState (length groupedEntities)))"

section \<open>Example inputs\<close>

text \<open>Small projects in the shape of the scenarios the specification lists.\<close>

definition exFile :: "string \<Rightarrow> ScannedFile" where
  "exFile p = \<lparr>absolutePath = ''/proj/'' @ p, relativePath = p, extension = ''.tsx'',
               inferredRole = None, inferredFrameworkSpecific = None\<rparr>"

definition exAnalysis :: "string \<Rightarrow> ASTDependency" where
  "exAnalysis p = \<lparr>fileRec = exFile p, fa_imports = [], exports = [], components = [],
     contextAPIs = [], jsxElementsUsed = [], reactHooksUsed = [], declaredTypes = [],
     typesUsedInAnnotations = [], loc = 10\<rparr>"

definition exComponent :: "string \<Rightarrow> bool \<Rightarrow> component_rec" where
  "exComponent n functional =
     \<lparr>comp_name = n, comp_isExported = True, isFunctional = functional, inferredHOC = None\<rparr>"

text \<open>Scenario A: \<open>Button\<close> is a function component in one project, a class in the other.\<close>

definition exButtonP1 :: ASTDependency where
  "exButtonP1 = (exAnalysis ''p1/Button.tsx'')
     \<lparr>components := [exComponent ''Button'' True], jsxElementsUsed := [(''div'', 1)]\<rparr>"

definition exButtonP2 :: ASTDependency where
  "exButtonP2 = (exAnalysis ''p2/Button.tsx'')
     \<lparr>components := [exComponent ''Button'' False], jsxElementsUsed := [(''div'', 1)]\<rparr>"

text \<open>Scenario B, with a difference: \<open>formatDate\<close> has 10 lines in one project, 12 in the other.\<close>

definition exFormatDateP1 :: ASTDependency where
  "exFormatDateP1 = exAnalysis ''p1/formatDate.ts''"

definition exFormatDateP2 :: ASTDependency where
  "exFormatDateP2 = (exAnalysis ''p2/formatDate.ts'')\<lparr>loc := 12\<rparr>"

definition exLocWarning :: MergeConflict where
  "exLocWarning =
     \<lparr>ctype = UtilityLocDifference, severity = SevWarning,
      message = ''Shared utility '' @ quoted ''formatDate'' @ '' has different Lines of Code.'',
      details = DLocs [(''p1/formatDate.ts'', 10), (''p2/formatDate.ts'', 12)],
      relatedFiles = [''p1/formatDate.ts'', ''p2/formatDate.ts'']\<rparr>"

definition exTypeError :: MergeConflict where
  "exTypeError =
     \<lparr>ctype = ComponentStructuralDifference, severity = SevError,
      message = ''Shared component '' @ quoted ''Button''
                @ '' has conflicting component types (Functional vs Class).'',
      details = DTypes [(''p1/Button.tsx'', ''functional''), (''p2/Button.tsx'', ''class'')],
      relatedFiles = [''p1/Button.tsx'', ''p2/Button.tsx'']\<rparr>"

text \<open>
  Scenarios C and E: \<^verbatim>\<open>a.tsx\<close> imports \<^verbatim>\<open>./widgets/Card\<close> and renders \<^verbatim>\<open><Card/>\<close> twice;
  \<^verbatim>\<open>widgets/Card.tsx\<close> exports the component.
\<close>

definition exImport :: "string \<Rightarrow> string \<Rightarrow> import_rec" where
  "exImport localName source =
     \<lparr>imp_name = ''default'', imp_path = source, importedAs = Some localName\<rparr>"

definition exCard :: ASTDependency where
  "exCard = (exAnalysis ''widgets/Card.tsx'')\<lparr>components := [exComponent ''Card'' True]\<rparr>"

definition exProjectC :: AnalyzedProject where
  "exProjectC = \<lparr>projectName = ''p'', rootPath = ''/proj'', analyzedFiles =
     [(''a.tsx'', (exAnalysis ''a.tsx'')
         \<lparr>fa_imports := [exImport ''Card'' ''./widgets/Card''],
          jsxElementsUsed := [(''Card'', 2)]\<rparr>),
      (''widgets/Card.tsx'', exCard)]\<rparr>"

definition exImportEdge :: DependencyEdge where
  "exImportEdge = \<lparr>edge_from = ''a.tsx'', edge_to = ''widgets/Card.tsx'', edge_type = Import,
     weight = None, importedNames = [''Card''], reason = None\<rparr>"

definition exRenderEdge :: DependencyEdge where
  "exRenderEdge = \<lparr>edge_from = ''a.tsx'', edge_to = ''widgets/Card.tsx'', edge_type = RenderUsage,
     weight = Some 2, importedNames = [''Card''],
     reason = Some (''Component '' @ quoted ''Card'' @ '' rendered in JSX.'')\<rparr>"

text \<open>Scenario D: \<^verbatim>\<open>a.tsx\<close> imports the package \<^verbatim>\<open>left-pad\<close>.\<close>

definition exProjectD :: AnalyzedProject where
  "exProjectD = \<lparr>projectName = ''p'', rootPath = ''/proj'', analyzedFiles =
     [(''a.tsx'', (exAnalysis ''a.tsx'')\<lparr>fa_imports := [exImport ''leftPad'' ''left-pad'']\<rparr>)]\<rparr>"

text \<open>
  A file that renders two components exported by the same file: the second one
  discovers the render-usage relationship again.
\<close>

definition exProjectW :: AnalyzedProject where
  "exProjectW = \<lparr>projectName = ''p'', rootPath = ''/proj'', analyzedFiles =
     [(''a.tsx'', (exAnalysis ''a.tsx'')\<lparr>jsxElementsUsed := [(''Card'', 2), (''Button'', 1)]\<rparr>),
      (''widgets/index.tsx'', (exAnalysis ''widgets/index.tsx'')
         \<lparr>components := [exComponent ''Card'' True, exComponent ''Button'' True]\<rparr>)]\<rparr>"

definition exWidgetsEdge :: "string list \<Rightarrow> DependencyEdge" where
  "exWidgetsEdge names = \<lparr>edge_from = ''a.tsx'', edge_to = ''widgets/index.tsx'',
     edge_type = RenderUsage, weight = Some 2, importedNames = names,
     reason = Some (''Component '' @ quoted ''Card'' @ '' rendered in JSX.'')\<rparr>"

definition exStateW1 :: graph_state where
  "exStateW1 = renderStep exProjectW ''a.tsx'' (''Card'', 2) initialGraphState"

text \<open>
  Both \<^verbatim>\<open>widgets/Card.tsx\<close> and \<^verbatim>\<open>widgets/Card/index.ts\<close> exist when \<^verbatim>\<open>a.tsx\<close> imports
  \<^verbatim>\<open>./widgets/Card\<close>.
\<close>

definition exProjectI :: AnalyzedProject where
  "exProjectI = \<lparr>projectName = ''p'', rootPath = ''/proj'', analyzedFiles =
     [(''a.tsx'', (exAnalysis ''a.tsx'')\<lparr>fa_imports := [exImport ''Card'' ''./widgets/Card'']\<rparr>),
      (''widgets/Card.tsx'', exCard),
      (''widgets/Card/index.ts'', exAnalysis ''widgets/Card/index.ts'')]\<rparr>"

text \<open>
  Inputs of the merge step. The parser of the examples accepts every text and the
  generator prints every tree (the tree is the text). An entity exports its name; with
  \<open>exEntity\<close> it carries the one original path given, the way the merge step reads it.
\<close>

definition exBabel :: "string babel" where
  "exBabel = \<lparr>parse = (\<lambda>code fileExtension. Some code), generate = (\<lambda>compact ast. Inr ast)\<rparr>"

definition exEntity :: "string \<Rightarrow> string \<Rightarrow> string \<Rightarrow> NormalizedEntity" where
  "exEntity unifiedId name path =
     \<lparr>ne_id = unifiedId, ne_name = name, ne_unifiedPath = unifiedId,
      normalizedCode = ''export default '' @ name @ '';'', originalPaths = Some [path]\<rparr>"

definition exButtonEntity :: NormalizedEntity where
  "exButtonEntity = exEntity ''merged/components/button.ts'' ''Button'' ''p1/Button.tsx''"

definition exFormatDateEntity :: NormalizedEntity where
  "exFormatDateEntity = exEntity ''merged/utils/formatdate.ts'' ''formatDate'' ''p1/formatDate.ts''"

definition exWorkspace :: AnalyzedProject where
  "exWorkspace = \<lparr>projectName = ''p1'', rootPath = ''/p1'', analyzedFiles =
     [(''p1/Button.tsx'', exButtonP1), (''p1/formatDate.ts'', exFormatDateP1)]\<rparr>"

definition exMergeInput :: MergeStepInput where
  "exMergeInput =
     \<lparr>normalizedEntities =
        \<lparr>normalizedComponents = [exButtonEntity], normalizedHooks = [],
         normalizedUtilities = [exFormatDateEntity], normalizedContexts = []\<rparr>,
      analyzedWorkspaces = [exWorkspace],
      mergeConflicts = conflictReport [exTypeError, exLocWarning]\<rparr>"




text \<open>
  Two components whose names differ in case only, so that they share the slug, the
  unified path and the id, each carrying its original path, and the structural
  conflict found for the second, whose related files are its own.
\<close>

definition exButtonLower :: NormalizedEntity where
  "exButtonLower = exEntity ''merged/components/button.ts'' ''button'' ''p1/button.tsx''"

definition exLowerTypeError :: MergeConflict where
  "exLowerTypeError =
     \<lparr>ctype = ComponentStructuralDifference, severity = SevError,
      message = ''Shared component '' @ quoted ''button''
                @ '' has conflicting component types (Functional vs Class).'',
      details = DTypes [(''p1/button.tsx'', ''functional''), (''p2/button.tsx'', ''class'')],
      relatedFiles = [''p1/button.tsx'', ''p2/button.tsx'']\<rparr>"

definition exSharedIdInput :: MergeStepInput where
  "exSharedIdInput =
     \<lparr>normalizedEntities =
        \<lparr>normalizedComponents = [exButtonEntity, exButtonLower], normalizedHooks = [],
         normalizedUtilities = [], normalizedContexts = []\<rparr>,
      analyzedWorkspaces = [exWorkspace],
      mergeConflicts = conflictReport [exLowerTypeError]\<rparr>"

text \<open>A Babel whose generator throws on every tree.\<close>

definition exThrowingBabel :: "string babel" where
  "exThrowingBabel =
     \<lparr>parse = (\<lambda>code fileExtension. Some code),
      generate = (\<lambda>compact ast. Inl (Error ''unknown node type''))\<rparr>"

section \<open>Properties used in the proofs\<close>

text \<open>
  The invariant of the detector's loop: \<^verbatim>\<open>canBeMerged\<close> is true exactly as long as no
  conflict of severity error has been pushed.
\<close>

definition flag_ok :: "detect_state \<Rightarrow> bool" where
  "flag_ok st \<longleftrightarrow> (snd st \<longleftrightarrow> \<not> (\<exists>c\<in>set (fst st). severity c = SevError))"

text \<open>
  The characters of a slug, and a path segment that \<^verbatim>\<open>normalizeString\<close> keeps as it is.
\<close>

definition slugChar :: "char \<Rightarrow> bool" where
  "slugChar c \<longleftrightarrow> isAlnumLower c \<or> c = CHR ''-''"

definition plainSegment :: "string \<Rightarrow> bool" where
  "plainSegment s \<longleftrightarrow> s \<noteq> [] \<and> s \<noteq> ''.'' \<and> s \<noteq> ''..'' \<and> CHR ''/'' \<notin> set s"

text \<open>
  The key of an edge, and the invariant of the edge construction: the id of every edge
  is in \<^verbatim>\<open>processedEdges\<close>, no two edges have the same key, and no edge is a loop.
\<close>

definition edge_key :: "DependencyEdge \<Rightarrow> string \<times> string \<times> edge_type" where
  "edge_key e = (edge_from e, edge_to e, edge_type e)"

definition graph_inv :: "graph_state \<Rightarrow> bool" where
  "graph_inv st \<longleftrightarrow>
     (\<forall>e\<in>set (edges st). edgeId (edge_from e) (edge_to e) (edge_type e) \<in> processedEdges st)
     \<and> distinct (map edge_key (edges st))
     \<and> (\<forall>e\<in>set (edges st). edge_from e \<noteq> edge_to e)"

text \<open>
  \<open>rediscovered st e e' st'\<close>: the step from \<open>st\<close> to \<open>st'\<close> replaced the edge \<open>e\<close> by
  \<open>e'\<close> where it stands and changed nothing else.
\<close>

definition rediscovered ::
  "graph_state \<Rightarrow> DependencyEdge \<Rightarrow> DependencyEdge \<Rightarrow> graph_state \<Rightarrow> bool" where
  "rediscovered st e e' st' \<longleftrightarrow>
     (\<exists>before after. edges st = before @ e # after \<and> edges st' = before @ e' # after)
     \<and> processedEdges st' = processedEdges st
     \<and> unresolvedImports st' = unresolvedImports st"

text \<open>
  The candidates of \<^verbatim>\<open>resolveImportPath\<close> for one base path, in the order the loops try
  them: the base path, then for each extension the path with the extension (the base
  path itself when it ends with the extension already) and the index file.
\<close>

definition candidatePaths :: "string \<Rightarrow> string list" where
  "candidatePaths basePath =
     basePath # concat (map (\<lambda>ext. [if endsWith basePath ext then basePath else basePath @ ext,
                                      path_join [basePath, ''index'' @ ext]])
                            COMMON_FILE_EXTENSIONS)"

text \<open>
  The order as claim C9 words it, for comparison: the exact match, then the base path
  with each known extension appended, then \<^verbatim>\<open>index.<ext>\<close> inside the base path.
\<close>

definition claimedCandidatePaths :: "string \<Rightarrow> string list" where
  "claimedCandidatePaths basePath =
     basePath # map (\<lambda>ext. basePath @ ext) COMMON_FILE_EXTENSIONS
       @ map (\<lambda>ext. path_join [basePath, ''index'' @ ext]) COMMON_FILE_EXTENSIONS"

text \<open>The base path of a relative import: the specifier resolved against the directory
  of the importing file, relative to the project root.\<close>

definition relativeBase :: "string \<Rightarrow> string \<Rightarrow> string \<Rightarrow> string \<Rightarrow> string" where
  "relativeBase cwd projectRootPath fromFilePath importSource =
     path_relative cwd projectRootPath
       (path_resolve cwd [projectRootPath, path_dirname fromFilePath, importSource])"

text \<open>
  For the existence of edges: an edge id in \<^verbatim>\<open>processedEdges\<close> whose source has no
  \<^verbatim>\<open>>\<close> belongs to an edge of the list; and a state has an edge with a given key that
  lists a given name.
\<close>

definition ids_backed :: "graph_state \<Rightarrow> bool" where
  "ids_backed st \<longleftrightarrow>
     (\<forall>s t k. CHR ''>'' \<notin> set s \<longrightarrow> edgeId s t k \<in> processedEdges st
        \<longrightarrow> (\<exists>e\<in>set (edges st). edge_key e = (s, t, k)))"

definition has_named_edge :: "string \<times> string \<times> edge_type \<Rightarrow> string \<Rightarrow> graph_state \<Rightarrow> bool" where
  "has_named_edge key n st \<longleftrightarrow> (\<exists>e\<in>set (edges st). edge_key e = key \<and> n \<in> set (importedNames e))"






chapter \<open>Verification\<close>

section \<open>Conflict detection and mergeability\<close>

lemma flag_ok_push_warning: "flag_ok st \<Longrightarrow> severity c = SevWarning \<Longrightarrow> flag_ok (push c st)"
  by (auto simp: flag_ok_def push_def)

lemma flag_ok_push_error: "severity c = SevError \<Longrightarrow> flag_ok (blockMerge (push c st))"
  by (auto simp: flag_ok_def push_def blockMerge_def)

lemma flag_ok_checkRole: "flag_ok st \<Longrightarrow> flag_ok (checkRole n t f c st)"
  unfolding checkRole_def by (simp add: flag_ok_push_error)

lemma flag_ok_checkLoc: "flag_ok st \<Longrightarrow> flag_ok (checkLoc n t f c st)"
  unfolding checkLoc_def by (simp add: flag_ok_push_warning)

lemma flag_ok_checkComponentType:
  "flag_ok st \<Longrightarrow> flag_ok (checkComponentType n f c fc cc st)"
  unfolding checkComponentType_def by (simp add: flag_ok_push_error)

lemma flag_ok_checkJsxProfile: "flag_ok st \<Longrightarrow> flag_ok (checkJsxProfile n f c st)"
  unfolding checkJsxProfile_def by (simp add: flag_ok_push_warning)

lemma flag_ok_checkHookProfile: "flag_ok st \<Longrightarrow> flag_ok (checkHookProfile m n f c st)"
  unfolding checkHookProfile_def by (simp add: flag_ok_push_warning)

lemma flag_ok_checkHocs: "flag_ok st \<Longrightarrow> flag_ok (checkHocs n f c st)"
  unfolding checkHocs_def Let_def by (simp add: flag_ok_push_warning)

lemma flag_ok_checkContextType: "flag_ok st \<Longrightarrow> flag_ok (checkContextType n f c st)"
  unfolding checkContextType_def by (simp add: flag_ok_push_warning)

lemma flag_ok_checkSpecific: "flag_ok st \<Longrightarrow> flag_ok (checkSpecific n t f c st)"
  unfolding checkSpecific_def
  by (simp add: flag_ok_checkHocs flag_ok_checkHookProfile flag_ok_checkJsxProfile
      flag_ok_checkComponentType flag_ok_checkContextType
      split: entity_type.split option.split)

lemma flag_ok_detectStep: "flag_ok st \<Longrightarrow> flag_ok (detectStep n t f c st)"
  unfolding detectStep_def
  by (simp add: flag_ok_checkSpecific flag_ok_checkLoc flag_ok_checkRole)

lemma flag_ok_fold: "flag_ok st \<Longrightarrow> flag_ok (fold (detectStep n t f) xs st)"
  by (induction xs arbitrary: st) (simp_all add: flag_ok_detectStep)

lemma detect_scenario_A:
  "detectConflictsForEntity ''Button'' [exButtonP1, exButtonP2] Component
     = Inr ([exTypeError], False)"
  by code_simp

lemma detect_loc_warning:
  "detectConflictsForEntity ''formatDate'' [exFormatDateP1, exFormatDateP2] Utility
     = Inr ([exLocWarning], True)"
  by code_simp

text \<open>
  Claim C1. For every group of analyses the aggregation builds (a non-empty list), the
  detector returns, and the mergeability flag \<^verbatim>\<open>canBeMerged\<close> it returns is false if and
  only if one of the conflicts it produced, comparing the members after the first with
  the first, has severity error. Conflicts of severity warning alone leave the flag
  true.
\<close>

theorem C1_unmergeable_iff_error_conflict:
  assumes "analyses \<noteq> []"
  shows "\<exists>conflicts canBeMerged.
           detectConflictsForEntity name analyses entityType = Inr (conflicts, canBeMerged)
           \<and> (canBeMerged = False \<longleftrightarrow> (\<exists>c\<in>set conflicts. severity c = SevError))"
proof -
  from assms obtain firstAnalysis others where a: "analyses = firstAnalysis # others"
    by (cases analyses) auto
  have "flag_ok ([], True)"
    by (simp add: flag_ok_def)
  then have "flag_ok (fold (detectStep name entityType firstAnalysis) others ([], True))"
    by (rule flag_ok_fold)
  then show ?thesis
    unfolding a detectConflictsForEntity_def flag_ok_def
    by (cases "fold (detectStep name entityType firstAnalysis) others ([], True)") auto
qed

text \<open>
  Witness for C1: scenario A yields one error conflict and an unmergeable group; a line
  count difference alone yields one warning and a mergeable group.
\<close>

theorem C1_witness:
  "[exButtonP1, exButtonP2] \<noteq> [] \<and>
   detectConflictsForEntity ''Button'' [exButtonP1, exButtonP2] Component
     = Inr ([exTypeError], False) \<and>
   severity exTypeError = SevError \<and>
   detectConflictsForEntity ''formatDate'' [exFormatDateP1, exFormatDateP2] Utility
     = Inr ([exLocWarning], True) \<and>
   severity exLocWarning = SevWarning"
  using C1_unmergeable_iff_error_conflict [of "[exButtonP1, exButtonP2]" "''Button''" Component]
        C1_unmergeable_iff_error_conflict
          [of "[exFormatDateP1, exFormatDateP2]" "''formatDate''" Utility]
        detect_scenario_A detect_loc_warning
  by (simp add: exTypeError_def exLocWarning_def)

text \<open>
  Claim C3. For a group with exactly one candidate the detector produces no conflict
  and the group is mergeable.
\<close>

theorem C3_single_candidate_no_conflicts:
  assumes "length analyses = 1"
  shows "detectConflictsForEntity name analyses entityType = Inr ([], True)"
proof -
  from assms obtain a where "analyses = [a]"
    by (cases analyses) auto
  then show ?thesis
    by (simp add: detectConflictsForEntity_def)
qed

theorem C3_witness:
  "length [exButtonP1] = 1 \<and>
   detectConflictsForEntity ''Button'' [exButtonP1] Component = Inr ([], True)"
  using C3_single_candidate_no_conflicts [of "[exButtonP1]" "''Button''" Component]
  by simp

section \<open>The conflict report\<close>

lemma filter_severity_length:
  "length (filter (\<lambda>c. severity c = SevError) cs)
     + length (filter (\<lambda>c. severity c = SevWarning) cs) = length cs"
proof (induction cs)
  case Nil
  show ?case by simp
next
  case (Cons c cs)
  then show ?case by (cases "severity c") simp_all
qed

lemma filter_severity_mset:
  "mset (filter (\<lambda>c. severity c = SevError) cs)
     + mset (filter (\<lambda>c. severity c = SevWarning) cs) = mset cs"
proof (induction cs)
  case Nil
  show ?case by simp
next
  case (Cons c cs)
  then show ?case by (cases "severity c") simp_all
qed

text \<open>
  Claim C10. In the conflict report, \<^verbatim>\<open>criticalErrors\<close> is the list of the collected
  conflicts of severity error and \<^verbatim>\<open>warnings\<close> the list of those of severity warning;
  the two lists partition the collected conflicts (together they hold every conflict
  once, and no conflict is in both); \<^verbatim>\<open>totalConflicts\<close> is the sum of their lengths; and
  \<^verbatim>\<open>hasConflicts\<close> is true if and only if \<^verbatim>\<open>totalConflicts\<close> is positive.
\<close>

theorem C10_conflict_report_partition:
  "criticalErrors (conflictReport allConflicts)
     = filter (\<lambda>c. severity c = SevError) allConflicts
   \<and> warnings (conflictReport allConflicts)
     = filter (\<lambda>c. severity c = SevWarning) allConflicts
   \<and> mset (criticalErrors (conflictReport allConflicts))
       + mset (warnings (conflictReport allConflicts)) = mset allConflicts
   \<and> set (criticalErrors (conflictReport allConflicts))
       \<inter> set (warnings (conflictReport allConflicts)) = {}
   \<and> totalConflicts (conflictReport allConflicts)
     = length (criticalErrors (conflictReport allConflicts))
       + length (warnings (conflictReport allConflicts))
   \<and> (hasConflicts (conflictReport allConflicts)
        \<longleftrightarrow> totalConflicts (conflictReport allConflicts) > 0)"
proof -
  have "set (filter (\<lambda>c. severity c = SevError) allConflicts)
          \<inter> set (filter (\<lambda>c. severity c = SevWarning) allConflicts) = {}"
    by auto
  then show ?thesis
    by (simp add: conflictReport_def filter_severity_length filter_severity_mset
          del: mset_filter set_filter)
qed

theorem C10_witness:
  "conflictReport [exTypeError, exLocWarning]
     = \<lparr>hasConflicts = True, criticalErrors = [exTypeError], warnings = [exLocWarning],
        totalConflicts = 2\<rparr>
   \<and> totalConflicts (conflictReport [exTypeError, exLocWarning])
     = length (criticalErrors (conflictReport [exTypeError, exLocWarning]))
       + length (warnings (conflictReport [exTypeError, exLocWarning]))"
  using C10_conflict_report_partition [of "[exTypeError, exLocWarning]"]
  by (simp add: conflictReport_def exTypeError_def exLocWarning_def)

section \<open>Unified paths\<close>

lemma replaceRuns_chars: "list_all slugChar (replaceRuns s)"
  by (induction s rule: replaceRuns.induct) (simp_all add: slugChar_def)

lemma list_all_tl: "list_all P xs \<Longrightarrow> list_all P (tl xs)"
  by (cases xs) simp_all

lemma list_all_butlast: "list_all P xs \<Longrightarrow> list_all P (butlast xs)"
  by (induction xs) simp_all

lemma stripEdgeDashes_chars: "list_all P s \<Longrightarrow> list_all P (stripEdgeDashes s)"
  by (simp add: stripEdgeDashes_def Let_def list_all_tl list_all_butlast)

lemma slug_chars: "list_all slugChar (slug name)"
  by (simp add: slug_def stripEdgeDashes_chars replaceRuns_chars)

lemma slash_not_slugChar: "\<not> slugChar CHR ''/''"
  by (simp add: slugChar_def isAlnumLower_def less_eq_char_def)

lemma dot_not_slugChar: "\<not> slugChar CHR ''.''"
  by (simp add: slugChar_def isAlnumLower_def less_eq_char_def)

lemma slug_file_plain: "plainSegment (slug name @ ''.ts'')"
proof -
  have "CHR ''/'' \<notin> set (slug name)"
    using slug_chars [of name] slash_not_slugChar by (auto simp: list_all_iff)
  then show ?thesis
    by (cases "slug name"; cases "tl (slug name)") (auto simp: plainSegment_def)
qed

lemma splitOn_nonempty: "splitOn d s \<noteq> []"
  by (induction s) (auto split: list.splits)

lemma splitOn_no_sep: "d \<notin> set s \<Longrightarrow> splitOn d s = [s]"
  by (induction s) auto

lemma splitOn_sep: "d \<notin> set a \<Longrightarrow> splitOn d (a @ d # b) = a # splitOn d b"
  by (induction a) (auto split: list.splits)

lemma normalizeSegs_plain:
  "list_all plainSegment segs \<Longrightarrow> normalizeSegs allow segs res = res @ segs"
  by (induction segs arbitrary: res) (auto simp: plainSegment_def)

lemma joinWith_Cons: "xs \<noteq> [] \<Longrightarrow> joinWith sep (x # xs) = x @ sep @ joinWith sep xs"
  by (cases xs) simp_all

lemma plain_not_absolute: "plainSegment a \<Longrightarrow> \<not> isAbsolute (a @ r)"
  by (cases a) (auto simp: plainSegment_def isAbsolute_def)

lemma plain_last: "plainSegment y \<Longrightarrow> last (r @ y) \<noteq> CHR ''/''"
  by (metis plainSegment_def last_appendR last_in_set)

lemma path_join_plain2:
  assumes "plainSegment a" "plainSegment y"
  shows "path_join [a, y] = a @ ''/'' @ y"
proof -
  have ne: "a \<noteq> []" "y \<noteq> []" using assms by (auto simp: plainSegment_def)
  have sp: "splitOn CHR ''/'' (a @ CHR ''/'' # y) = [a, y]"
    using assms by (simp add: splitOn_sep splitOn_no_sep plainSegment_def)
  have "normalizeSegs True [a, y] [] = [a, y]"
    using assms by (simp add: normalizeSegs_plain del: normalizeSegs.simps)
  then have ns: "normalizeString (a @ CHR ''/'' # y) True = a @ ''/'' @ y"
    by (simp add: normalizeString_def sp)
  have "path_normalize (a @ CHR ''/'' # y) = a @ ''/'' @ y"
    using plain_not_absolute [OF assms(1), of "CHR ''/'' # y"] plain_last [OF assms(2), of "a @ ''/''"] ne
    by (simp add: path_normalize_def Let_def ns)
  then show ?thesis using ne by (simp add: path_join_def)
qed

lemma path_join_plain3:
  assumes "plainSegment a" "plainSegment b" "plainSegment y"
  shows "path_join [a @ ''/'' @ b, y] = a @ ''/'' @ b @ ''/'' @ y"
proof -
  have ne: "a \<noteq> []" "y \<noteq> []" using assms by (auto simp: plainSegment_def)
  have sp: "splitOn CHR ''/'' (a @ CHR ''/'' # b @ CHR ''/'' # y) = [a, b, y]"
    using assms by (simp add: splitOn_sep splitOn_no_sep plainSegment_def)
  have "normalizeSegs True [a, b, y] [] = [a, b, y]"
    using assms by (simp add: normalizeSegs_plain del: normalizeSegs.simps)
  then have ns: "normalizeString (a @ CHR ''/'' # b @ CHR ''/'' # y) True = a @ ''/'' @ b @ ''/'' @ y"
    by (simp add: normalizeString_def sp)
  have "path_normalize (a @ CHR ''/'' # b @ CHR ''/'' # y) = a @ ''/'' @ b @ ''/'' @ y"
    using plain_not_absolute [OF assms(1), of "CHR ''/'' # b @ CHR ''/'' # y"]
          plain_last [OF assms(3), of "a @ ''/'' @ b @ ''/''"] ne
    by (simp add: path_normalize_def Let_def ns)
  then show ?thesis using ne by (simp add: path_join_def)
qed

lemma plain_names:
  "plainSegment ''merged''" "plainSegment ''components''" "plainSegment ''hooks''"
  "plainSegment ''contexts''" "plainSegment ''utils''" "plainSegment ''common''"
  by (simp_all add: plainSegment_def)

lemma folder_joins:
  "path_join [''merged'', ''components''] = ''merged/components''"
  "path_join [''merged'', ''hooks''] = ''merged/hooks''"
  "path_join [''merged'', ''contexts''] = ''merged/contexts''"
  "path_join [''merged'', ''utils''] = ''merged/utils''"
  "path_join [''merged'', ''common''] = ''merged/common''"
  using path_join_plain2 [OF plain_names(1) plain_names(2)]
        path_join_plain2 [OF plain_names(1) plain_names(3)]
        path_join_plain2 [OF plain_names(1) plain_names(4)]
        path_join_plain2 [OF plain_names(1) plain_names(5)]
        path_join_plain2 [OF plain_names(1) plain_names(6)]
  by simp_all

lemma file_joins:
  assumes "plainSegment y"
  shows "path_join [''merged/components'', y] = ''merged/components/'' @ y"
    and "path_join [''merged/hooks'', y] = ''merged/hooks/'' @ y"
    and "path_join [''merged/contexts'', y] = ''merged/contexts/'' @ y"
    and "path_join [''merged/utils'', y] = ''merged/utils/'' @ y"
    and "path_join [''merged/common'', y] = ''merged/common/'' @ y"
  using path_join_plain3 [OF plain_names(1) plain_names(2) assms]
        path_join_plain3 [OF plain_names(1) plain_names(3) assms]
        path_join_plain3 [OF plain_names(1) plain_names(4) assms]
        path_join_plain3 [OF plain_names(1) plain_names(5) assms]
        path_join_plain3 [OF plain_names(1) plain_names(6) assms]
  by simp_all

lemma slug_examples:
  "slug ''My Button'' = ''my-button''"
  "slug ''useAuth'' = ''useauth''"
  by code_simp+

text \<open>
  Claim C4, as amended. The unified path is a function of the name and the entity type
  alone (\<open>generateUnifiedPath\<close> reads no state): with the default base directory it is
  \<^verbatim>\<open>merged/<dir>/<slug>.ts\<close>, where the directory is \<^verbatim>\<open>components\<close> for a component,
  \<^verbatim>\<open>hooks\<close> for a hook, \<^verbatim>\<open>contexts\<close> for a context, \<^verbatim>\<open>utils\<close> for a utility and
  \<^verbatim>\<open>common\<close> for any other type, and the slug of the name consists of lower-case
  letters, digits and dashes only.
\<close>

theorem C4_unified_path_shape:
  "generateUnifiedPath name entityType ''merged'' =
     ''merged/'' @ (if entityType = ''component'' then ''components''
                   else if entityType = ''hook'' then ''hooks''
                   else if entityType = ''context'' then ''contexts''
                   else if entityType = ''utility'' then ''utils''
                   else ''common'') @ ''/'' @ slug name @ ''.ts''
   \<and> list_all (\<lambda>c. isAlnumLower c \<or> c = CHR ''-'') (slug name)"
  using slug_chars [of name]
  by (simp add: generateUnifiedPath_def folder_joins file_joins [OF slug_file_plain]
        list_all_iff slugChar_def)

theorem C4_witness:
  "generateUnifiedPath ''My Button'' ''component'' ''merged'' = ''merged/components/my-button.ts''
   \<and> generateUnifiedPath ''useAuth'' ''hook'' ''merged'' = ''merged/hooks/useauth.ts''"
  using C4_unified_path_shape [of "''My Button''" "''component''"]
        C4_unified_path_shape [of "''useAuth''" "''hook''"]
  by (simp add: slug_examples)

text \<open>
  Counterexample to C4 as stated: the path of the hook \<^verbatim>\<open>useAuth\<close> lies beneath
  \<^verbatim>\<open>merged/hooks\<close>; none of its segments is one of the directories the claim lists
  (\<^verbatim>\<open>components\<close>, \<^verbatim>\<open>state\<close>, \<^verbatim>\<open>containers\<close>, \<^verbatim>\<open>utils\<close>, \<^verbatim>\<open>common\<close>).
\<close>

theorem C4_counterexample:
  "generateUnifiedPath ''useAuth'' ''hook'' ''merged'' = ''merged/hooks/useauth.ts''
   \<and> set (splitOn CHR ''/'' (generateUnifiedPath ''useAuth'' ''hook'' ''merged''))
       \<inter> {''components'', ''state'', ''containers'', ''utils'', ''common''} = {}"
  by code_simp

section \<open>The dependency graph: unique edges, no loops\<close>

lemma graph_inv_initial: "graph_inv initialGraphState"
  by (simp add: graph_inv_def initialGraphState_def)

lemma graph_inv_pushEdge:
  assumes "graph_inv st" "edgeId (edge_from e) (edge_to e) (edge_type e) \<notin> processedEdges st"
    and "edge_from e \<noteq> edge_to e"
  shows "graph_inv (pushEdge e st)"
proof -
  have "edge_key e \<notin> set (map edge_key (edges st))"
  proof
    assume "edge_key e \<in> set (map edge_key (edges st))"
    then obtain e' where "e' \<in> set (edges st)" "edge_key e' = edge_key e" by auto
    then have "edgeId (edge_from e) (edge_to e) (edge_type e) \<in> processedEdges st"
      using assms(1) by (auto simp: graph_inv_def edge_key_def)
    with assms(2) show False by simp
  qed
  then show ?thesis using assms by (auto simp: graph_inv_def pushEdge_def)
qed

lemma updateFirst_keys:
  "(\<And>e. edge_key (f e) = edge_key e) \<Longrightarrow> map edge_key (updateFirst P f es) = map edge_key es"
  by (induction es) simp_all

lemma edge_key_addName: "edge_key (addName n e) = edge_key e"
  by (simp add: addName_def edge_key_def)

lemma edge_key_addImportName: "edge_key (addImportName imp e) = edge_key e"
  by (simp add: addImportName_def edge_key_def)

lemma graph_inv_edges_update:
  assumes "graph_inv st" "map edge_key es = map edge_key (edges st)"
  shows "graph_inv (st\<lparr>edges := es\<rparr>)"
proof -
  have k: "edge_key ` set es = edge_key ` set (edges st)"
    using assms(2) by (metis set_map)
  have "\<And>e. e \<in> set es \<Longrightarrow> \<exists>e'\<in>set (edges st). edge_key e' = edge_key e"
    using k by (metis (no_types, lifting) image_iff)
  then have "\<forall>e\<in>set es. edgeId (edge_from e) (edge_to e) (edge_type e) \<in> processedEdges st
              \<and> edge_from e \<noteq> edge_to e"
    using assms(1) unfolding graph_inv_def edge_key_def by (metis prod.inject)
  then show ?thesis using assms by (simp add: graph_inv_def)
qed

lemma graph_inv_unresolved: "graph_inv st \<Longrightarrow> graph_inv (st\<lparr>unresolvedImports := u\<rparr>)"
  by (simp add: graph_inv_def)

lemma graph_inv_importStep: "graph_inv st \<Longrightarrow> graph_inv (importStep cwd a src imp st)"
  unfolding importStep_def Let_def
  by (auto intro!: graph_inv_pushEdge graph_inv_edges_update graph_inv_unresolved
        simp: updateFirst_keys edge_key_addImportName truthy_opt_def split: option.splits)

lemma graph_inv_usageStep: "graph_inv st \<Longrightarrow> graph_inv (usageStep m k r src u st)"
  unfolding usageStep_def
  by (auto intro!: graph_inv_pushEdge graph_inv_edges_update
        simp: updateFirst_keys edge_key_addName split: option.splits)

lemma graph_inv_definitionStep: "graph_inv st \<Longrightarrow> graph_inv (definitionStep a d k n r src st)"
  unfolding definitionStep_def
  by (auto intro!: graph_inv_pushEdge split: option.splits)

lemma fold_invariant:
  "P st \<Longrightarrow> (\<And>x s. P s \<Longrightarrow> P (f x s)) \<Longrightarrow> P (fold f xs st)"
  by (induction xs arbitrary: st) simp_all

lemma graph_inv_renderStep: "graph_inv st \<Longrightarrow> graph_inv (renderStep a src u st)"
  unfolding renderStep_def by (rule graph_inv_usageStep)

lemma graph_inv_typeStep: "graph_inv st \<Longrightarrow> graph_inv (typeStep a src u st)"
  unfolding typeStep_def by (rule graph_inv_usageStep)

lemma graph_inv_contextStep: "graph_inv st \<Longrightarrow> graph_inv (contextStep a src c st)"
  unfolding contextStep_def by (simp add: graph_inv_definitionStep)

lemma graph_inv_hocStep: "graph_inv st \<Longrightarrow> graph_inv (hocStep a src c st)"
  unfolding hocStep_def by (simp add: graph_inv_definitionStep)

lemma graph_inv_processFile:
  assumes "graph_inv st"
  shows "graph_inv (processFile cwd a entry st)"
proof -
  obtain src fa where e: "entry = (src, fa)" by (cases entry)
  have 1: "graph_inv (fold (importStep cwd a src) (fa_imports fa) st)"
    using assms by (rule fold_invariant [where P = graph_inv]) (rule graph_inv_importStep)
  have 2: "graph_inv (fold (renderStep a src) (jsxElementsUsed fa)
                       (fold (importStep cwd a src) (fa_imports fa) st))"
    using 1 by (rule fold_invariant [where P = graph_inv]) (rule graph_inv_renderStep)
  have 3: "graph_inv (fold (contextStep a src) (contextAPIs fa)
            (fold (renderStep a src) (jsxElementsUsed fa)
                       (fold (importStep cwd a src) (fa_imports fa) st)))"
    using 2 by (rule fold_invariant [where P = graph_inv]) (rule graph_inv_contextStep)
  have 4: "graph_inv (fold (hocStep a src) (components fa) (fold (contextStep a src) (contextAPIs fa)
            (fold (renderStep a src) (jsxElementsUsed fa)
                       (fold (importStep cwd a src) (fa_imports fa) st))))"
    using 3 by (rule fold_invariant [where P = graph_inv]) (rule graph_inv_hocStep)
  have "graph_inv (fold (typeStep a src) (typesUsedInAnnotations fa) (fold (hocStep a src) (components fa) (fold (contextStep a src) (contextAPIs fa)
            (fold (renderStep a src) (jsxElementsUsed fa)
                       (fold (importStep cwd a src) (fa_imports fa) st)))))"
    using 4 by (rule fold_invariant [where P = graph_inv]) (rule graph_inv_typeStep)
  then show ?thesis by (simp add: processFile_def e)
qed

lemma graph_inv_build: "graph_inv (buildDependencyGraph cwd a)"
  unfolding buildDependencyGraph_def
  using graph_inv_initial by (rule fold_invariant [where P = graph_inv]) (rule graph_inv_processFile)

lemma processFile_invariant:
  assumes "P st"
    and "\<And>x s. P s \<Longrightarrow> P (importStep cwd a src x s)"
    and "\<And>x s. P s \<Longrightarrow> P (renderStep a src x s)"
    and "\<And>x s. P s \<Longrightarrow> P (contextStep a src x s)"
    and "\<And>x s. P s \<Longrightarrow> P (hocStep a src x s)"
    and "\<And>x s. P s \<Longrightarrow> P (typeStep a src x s)"
  shows "P (processFile cwd a (src, fa) st)"
  unfolding processFile_def prod.case
  by (intro fold_invariant [where P = P] assms)

lemma updateFirst_find:
  "find P xs = Some e \<Longrightarrow>
     \<exists>before after. xs = before @ e # after \<and> updateFirst P f xs = before @ f e # after"
proof (induction xs)
  case Nil
  then show ?case by simp
next
  case (Cons x xs)
  show ?case
  proof (cases "P x")
    case True
    with Cons.prems have "x = e" by simp
    with True show ?thesis by (intro exI [of _ "[]"] exI [of _ xs]) simp
  next
    case False
    with Cons.prems have "find P xs = Some e" by simp
    from Cons.IH [OF this] obtain before after
      where "xs = before @ e # after" "updateFirst P f xs = before @ f e # after" by blast
    with False show ?thesis by (intro exI [of _ "x # before"] exI [of _ after]) simp
  qed
qed

lemma find_edge_recorded:
  assumes "graph_inv st" "find (edgeMatches s t k) (edges st) = Some e"
  shows "edgeId s t k \<in> processedEdges st"
proof -
  from assms(2) have "e \<in> set (edges st)" "edgeMatches s t k e"
    by (auto simp: find_Some_iff)
  with assms(1) show ?thesis by (auto simp: graph_inv_def edgeMatches_def)
qed

lemma usageStep_rediscovery:
  assumes "graph_inv st" "find (edgeMatches src tgt k) (edges st) = Some e"
    and "map_of m (fst used) = Some tgt" "truthy tgt" "tgt \<noteq> src"
  shows "rediscovered st e (addName (fst used) e) (usageStep m k r src used st)"
  using find_edge_recorded [OF assms(1,2)] updateFirst_find [OF assms(2), of "addName (fst used)"] assms(3-5)
  by (simp add: usageStep_def rediscovered_def)

lemma importStep_rediscovery:
  assumes "graph_inv st"
    and "k = (if str_includes (imp_path imp) ''import('' then DynamicImport else Import)"
    and "find (edgeMatches src tgt k) (edges st) = Some e"
    and "resolveImportPath cwd src (imp_path imp) (analyzedFiles a) (rootPath a) = Some tgt"
    and "truthy tgt" "tgt \<noteq> src"
  shows "rediscovered st e (addImportName imp e) (importStep cwd a src imp st)"
  using find_edge_recorded [OF assms(1,3)] updateFirst_find [OF assms(3), of "addImportName imp"] assms(2,4-6)
  by (simp add: importStep_def rediscovered_def Let_def truthy_opt_def)

lemma definitionStep_rediscovery:
  assumes "graph_inv st"
    and "find defines (map snd (analyzedFiles a)) = Some d"
    and "find (edgeMatches src (relativePath (fileRec d)) k) (edges st) = Some e"
  shows "definitionStep a defines k n r src st = st"
  using find_edge_recorded [OF assms(1,3)] assms(2)
  by (simp add: definitionStep_def)

lemma weight_addName: "weight (addName n e) = weight e"
  by (simp add: addName_def)

lemma weight_addImportName: "weight (addImportName imp e) = weight e"
  by (simp add: addImportName_def)

lemma names_addName: "importedNames (addName n e) = (if n \<in> set (importedNames e) then importedNames e else importedNames e @ [n])"
  by (simp add: addName_def)

lemma exStateW1_value:
  "exStateW1 = \<lparr>edges = [exWidgetsEdge [''Card'']],
                 processedEdges = {''a.tsx -> widgets/index.tsx (render-usage)''},
                 unresolvedImports = []\<rparr>"
  by code_simp

lemma exStateW1_inv: "graph_inv exStateW1"
  unfolding exStateW1_def by (rule graph_inv_renderStep [OF graph_inv_initial])

lemma exProjectW_map:
  "map_of (componentExportsMap exProjectW) ''Button'' = Some ''widgets/index.tsx''"
  by code_simp

lemma exProjectW_edges:
  "edges (buildDependencyGraph ''/cwd'' exProjectW) = [exWidgetsEdge [''Card'', ''Button'']]"
  by code_simp

lemma exProjectC_edges:
  "edges (buildDependencyGraph ''/cwd'' exProjectC) = [exImportEdge, exRenderEdge]"
  by code_simp

lemma names_addImportName:
  "importedNames (addImportName imp e)
     = (let names = importedNames e;
            byName = (if imp_name imp \<noteq> [] \<and> imp_name imp \<notin> set names
                      then names @ [imp_name imp] else names)
        in case importedAs imp of
             None \<Rightarrow> byName
           | Some alias \<Rightarrow>
               if alias \<noteq> [] \<and> alias \<notin> set names then names @ [alias] else byName)"
  by (simp add: addImportName_def truthy_opt_def truthy_def Let_def split: option.splits)

text \<open>
  Claim C2, as amended. No two edges of a dependency graph share the same (from, to,
  type) triple. When a step finds a relationship whose edge \<open>e\<close> already exists (in a
  state that satisfies the invariant \<open>graph_inv\<close>, which holds initially and after every
  step), no second edge is created, the weight of \<open>e\<close> stays as it is, and only the
  \<^verbatim>\<open>importedNames\<close> of \<open>e\<close> can change:

    \<^item> a render-usage or type-dependency step (\<open>usageStep\<close>) appends the referenced name
      unless it is listed already;

    \<^item> an import step (static or dynamic) appends the import's alias when the alias is
      not empty and not listed; otherwise (no alias, an empty one, or one listed
      already) it appends the import's name when the name is not empty and not listed;
      otherwise it appends nothing;

    \<^item> a context-usage or HOC-usage step (\<open>definitionStep\<close>) changes nothing.
\<close>

theorem C2_unique_edges_weight_kept:
  "distinct (map edge_key (edges (buildDependencyGraph cwd analysis)))
   \<and> (graph_inv st \<and> find (edgeMatches src tgt k) (edges st) = Some e
        \<and> map_of exportsMap (fst used) = Some tgt \<and> truthy tgt \<and> tgt \<noteq> src
      \<longrightarrow> rediscovered st e (addName (fst used) e) (usageStep exportsMap k reasonOf src used st)
          \<and> weight (addName (fst used) e) = weight e
          \<and> importedNames (addName (fst used) e)
              = (if fst used \<in> set (importedNames e) then importedNames e
                 else importedNames e @ [fst used]))
   \<and> (graph_inv st
        \<and> find (edgeMatches src tgt
                  (if str_includes (imp_path imp) ''import('' then DynamicImport else Import))
             (edges st) = Some e
        \<and> resolveImportPath cwd src (imp_path imp) (analyzedFiles analysis) (rootPath analysis)
            = Some tgt
        \<and> truthy tgt \<and> tgt \<noteq> src
      \<longrightarrow> rediscovered st e (addImportName imp e) (importStep cwd analysis src imp st)
          \<and> weight (addImportName imp e) = weight e
          \<and> importedNames (addImportName imp e)
              = (let names = importedNames e;
                     byName = (if imp_name imp \<noteq> [] \<and> imp_name imp \<notin> set names
                               then names @ [imp_name imp] else names)
                 in case importedAs imp of
                      None \<Rightarrow> byName
                    | Some alias \<Rightarrow>
                        if alias \<noteq> [] \<and> alias \<notin> set names then names @ [alias] else byName))
   \<and> (graph_inv st \<and> find defines (map snd (analyzedFiles analysis)) = Some d
        \<and> find (edgeMatches src (relativePath (fileRec d)) k) (edges st) = Some e
      \<longrightarrow> definitionStep analysis defines k usedName reasonText src st = st)"
proof (intro conjI impI)
  show "distinct (map edge_key (edges (buildDependencyGraph cwd analysis)))"
    using graph_inv_build [of cwd analysis] by (simp add: graph_inv_def)
qed (auto intro: usageStep_rediscovery importStep_rediscovery definitionStep_rediscovery
       simp: weight_addName weight_addImportName names_addName names_addImportName)

text \<open>
  Witness for C2: in \<open>exProjectW\<close> the component \<^verbatim>\<open>Button\<close> is found in the file the edge
  for \<^verbatim>\<open>Card\<close> already points to; the edge takes the name and keeps its weight 2. In
  the graph of \<open>exProjectC\<close> a second import of \<^verbatim>\<open>./widgets/Card\<close> under the alias
  \<^verbatim>\<open>Card\<close>, which the edge lists, adds the import's name \<^verbatim>\<open>default\<close>.
\<close>

theorem C2_witness:
  "distinct (map edge_key (edges (buildDependencyGraph ''/cwd'' exProjectW)))
   \<and> rediscovered exStateW1 (exWidgetsEdge [''Card'']) (exWidgetsEdge [''Card'', ''Button''])
       (renderStep exProjectW ''a.tsx'' (''Button'', 1) exStateW1)
   \<and> weight (exWidgetsEdge [''Card'', ''Button'']) = weight (exWidgetsEdge [''Card''])
   \<and> rediscovered (buildDependencyGraph ''/cwd'' exProjectC) exImportEdge
       (exImportEdge\<lparr>importedNames := [''Card'', ''default'']\<rparr>)
       (importStep ''/cwd'' exProjectC ''a.tsx'' (exImport ''Card'' ''./widgets/Card'')
          (buildDependencyGraph ''/cwd'' exProjectC))"
proof -
  have f: "find (edgeMatches ''a.tsx'' ''widgets/index.tsx'' RenderUsage) (edges exStateW1)
             = Some (exWidgetsEdge [''Card''])"
    by (simp add: exStateW1_value edgeMatches_def exWidgetsEdge_def)
  have a: "addName ''Button'' (exWidgetsEdge [''Card'']) = exWidgetsEdge [''Card'', ''Button'']"
    by (simp add: addName_def exWidgetsEdge_def)
  have usage: "rediscovered exStateW1 (exWidgetsEdge [''Card''])
                 (exWidgetsEdge [''Card'', ''Button''])
                 (renderStep exProjectW ''a.tsx'' (''Button'', 1) exStateW1)
               \<and> weight (exWidgetsEdge [''Card'', ''Button'']) = weight (exWidgetsEdge [''Card''])"
    using C2_unique_edges_weight_kept
            [of "''/cwd''" exProjectW exStateW1 "''a.tsx''" "''widgets/index.tsx''" RenderUsage
                "exWidgetsEdge [''Card'']" "componentExportsMap exProjectW" "(''Button'', 1)"
                "\<lambda>n. ''Component '' @ quoted n @ '' rendered in JSX.''"]
          exStateW1_inv f exProjectW_map a
    by (simp add: renderStep_def truthy_def exWidgetsEdge_def)
  have g: "graph_inv (buildDependencyGraph ''/cwd'' exProjectC)"
    by (rule graph_inv_build)
  have fi: "find (edgeMatches ''a.tsx'' ''widgets/Card.tsx''
                   (if str_includes (imp_path (exImport ''Card'' ''./widgets/Card'')) ''import(''
                    then DynamicImport else Import))
              (edges (buildDependencyGraph ''/cwd'' exProjectC)) = Some exImportEdge"
    by code_simp
  have r: "resolveImportPath ''/cwd'' ''a.tsx'' (imp_path (exImport ''Card'' ''./widgets/Card''))
             (analyzedFiles exProjectC) (rootPath exProjectC) = Some ''widgets/Card.tsx''"
    by code_simp
  have ai: "addImportName (exImport ''Card'' ''./widgets/Card'') exImportEdge
              = exImportEdge\<lparr>importedNames := [''Card'', ''default'']\<rparr>"
    by (simp add: addImportName_def exImport_def exImportEdge_def truthy_opt_def truthy_def)
  have prem: "graph_inv (buildDependencyGraph ''/cwd'' exProjectC)
        \<and> find (edgeMatches ''a.tsx'' ''widgets/Card.tsx''
                  (if str_includes (imp_path (exImport ''Card'' ''./widgets/Card'')) ''import(''
                   then DynamicImport else Import))
             (edges (buildDependencyGraph ''/cwd'' exProjectC)) = Some exImportEdge
        \<and> resolveImportPath ''/cwd'' ''a.tsx'' (imp_path (exImport ''Card'' ''./widgets/Card''))
              (analyzedFiles exProjectC) (rootPath exProjectC) = Some ''widgets/Card.tsx''
        \<and> truthy ''widgets/Card.tsx'' \<and> ''widgets/Card.tsx'' \<noteq> ''a.tsx''"
    using g fi r by (simp add: truthy_def)
  have "rediscovered (buildDependencyGraph ''/cwd'' exProjectC) exImportEdge
          (addImportName (exImport ''Card'' ''./widgets/Card'') exImportEdge)
          (importStep ''/cwd'' exProjectC ''a.tsx'' (exImport ''Card'' ''./widgets/Card'')
             (buildDependencyGraph ''/cwd'' exProjectC))"
    using C2_unique_edges_weight_kept
            [where cwd = "''/cwd''" and analysis = exProjectC
               and st = "buildDependencyGraph ''/cwd'' exProjectC" and src = "''a.tsx''"
               and tgt = "''widgets/Card.tsx''" and e = exImportEdge
               and imp = "exImport ''Card'' ''./widgets/Card''",
             THEN conjunct2, THEN conjunct2, THEN conjunct1, THEN mp, OF prem]
    by (rule conjunct1)
  then have imported: "rediscovered (buildDependencyGraph ''/cwd'' exProjectC) exImportEdge
                    (exImportEdge\<lparr>importedNames := [''Card'', ''default'']\<rparr>)
                    (importStep ''/cwd'' exProjectC ''a.tsx'' (exImport ''Card'' ''./widgets/Card'')
                       (buildDependencyGraph ''/cwd'' exProjectC))"
    by (simp only: ai)
  show ?thesis
    using C2_unique_edges_weight_kept [where cwd = "''/cwd''" and analysis = exProjectW,
            THEN conjunct1] usage imported
    by simp
qed

text \<open>
  Counterexample to C2 as stated: when the render-usage relationship from \<^verbatim>\<open>a.tsx\<close> to
  \<^verbatim>\<open>widgets/index.tsx\<close> is discovered again, the weight of its edge is 2 before and 2
  after; it does not increase.
\<close>

theorem C2_counterexample:
  "map weight (edges exStateW1) = [Some 2]
   \<and> map weight (edges (renderStep exProjectW ''a.tsx'' (''Button'', 1) exStateW1)) = [Some 2]
   \<and> map weight (edges (buildDependencyGraph ''/cwd'' exProjectW)) = [Some 2]"
  by code_simp

text \<open>
  Claim C5. In every dependency graph built, whatever the type of an edge, its source
  differs from its target.
\<close>

theorem C5_no_self_edges:
  "\<forall>e\<in>set (edges (buildDependencyGraph cwd analysis)). edge_from e \<noteq> edge_to e"
  using graph_inv_build [of cwd analysis] by (simp add: graph_inv_def)

theorem C5_witness:
  "edges (buildDependencyGraph ''/cwd'' exProjectC) = [exImportEdge, exRenderEdge]
   \<and> edge_from exImportEdge \<noteq> edge_to exImportEdge
   \<and> edge_from exRenderEdge \<noteq> edge_to exRenderEdge"
  using C5_no_self_edges [of "''/cwd''" exProjectC] exProjectC_edges
  by simp

section \<open>Imports of packages\<close>

text \<open>
  Claim C8. An import whose specifier is bare (it starts with none of \<^verbatim>\<open>.\<close>, \<^verbatim>\<open>/\<close> and
  \<^verbatim>\<open>@\<close>) is not resolved, and its step leaves the state as it is: no edge, no entry in
  \<^verbatim>\<open>unresolvedImports\<close>.
\<close>

theorem C8_bare_specifier_skipped:
  assumes "isBareSpecifier (imp_path imp)"
  shows "resolveImportPath cwd sourcePath (imp_path imp) (analyzedFiles analysis)
           (rootPath analysis) = None
         \<and> importStep cwd analysis sourcePath imp st = st"
  using assms by (simp add: resolveImportPath_def importStep_def Let_def truthy_opt_def)

lemma exProjectD_graph:
  "buildDependencyGraph ''/cwd'' exProjectD = initialGraphState"
  by code_simp

text \<open>Witness for C8: scenario D, the whole graph of the project has no edge and no entry.\<close>

theorem C8_witness:
  "isBareSpecifier ''left-pad''
   \<and> importStep ''/cwd'' exProjectD ''a.tsx'' (exImport ''leftPad'' ''left-pad'') initialGraphState
       = initialGraphState
   \<and> edges (buildDependencyGraph ''/cwd'' exProjectD) = []
   \<and> unresolvedImports (buildDependencyGraph ''/cwd'' exProjectD) = []"
proof -
  have b: "isBareSpecifier (imp_path (exImport ''leftPad'' ''left-pad''))"
    by (simp add: isBareSpecifier_def startsWith_def exImport_def)
  show ?thesis
    using C8_bare_specifier_skipped [OF b, of "''/cwd''" "''a.tsx''" exProjectD initialGraphState] b
    by (simp add: exProjectD_graph initialGraphState_def exImport_def)
qed

section \<open>Resolution of relative imports\<close>

lemma tryExtensions_find:
  "tryExtensions files base exts =
     find (hasEntry files)
       (concat (map (\<lambda>ext. [if endsWith base ext then base else base @ ext,
                             path_join [base, ''index'' @ ext]]) exts))"
  by (induction exts) (simp_all add: Let_def)

lemma tryPaths_single: "tryPaths files [base] = find (hasEntry files) (candidatePaths base)"
  by (simp add: candidatePaths_def tryExtensions_find split: option.split)

lemma relative_not_bare: "startsWith p ''.'' \<Longrightarrow> \<not> isBareSpecifier p"
  by (simp add: isBareSpecifier_def)

lemma resolve_relative:
  "startsWith p ''.'' \<Longrightarrow>
   resolveImportPath cwd from_file p files rootDir
     = find (hasEntry files) (candidatePaths (relativeBase cwd rootDir from_file p))"
  by (simp add: resolveImportPath_def relative_not_bare Let_def relativeBase_def
        del: tryPaths.simps add: tryPaths_single)

text \<open>An edge id determines its edge key when the source path has no \<^verbatim>\<open>>\<close>.\<close>

lemma takeWhile_until: "x \<notin> set a \<Longrightarrow> takeWhile (\<lambda>c. c \<noteq> x) (a @ x # r) = a"
  by (induction a) auto

lemma split_at_first:
  assumes "x \<notin> set a" "x \<notin> set a'" "a @ x # r = a' @ x # r'"
  shows "a = a' \<and> r = r'"
proof -
  have "takeWhile (\<lambda>c. c \<noteq> x) (a @ x # r) = a" "takeWhile (\<lambda>c. c \<noteq> x) (a' @ x # r') = a'"
    by (simp_all add: takeWhile_until assms(1,2))
  with assms(3) have "a = a'" by simp
  with assms(3) show ?thesis by simp
qed

lemma split_at_last:
  assumes "x \<notin> set b" "x \<notin> set b'" "a @ x # b = a' @ x # b'"
  shows "a = a' \<and> b = b'"
proof -
  from assms(3) have "rev (a @ x # b) = rev (a' @ x # b')" by simp
  then have "rev b @ x # rev a = rev b' @ x # rev a'" by simp
  from split_at_first [OF _ _ this] assms(1,2) show ?thesis by simp
qed

lemma edge_type_str_no_paren: "CHR ''('' \<notin> set (edge_type_str k @ '')'')"
  by (cases k) simp_all

lemma edge_type_str_inj: "edge_type_str k = edge_type_str k' \<Longrightarrow> k = k'"
  by (cases k; cases k') simp_all

lemma edgeId_inj:
  assumes "CHR ''>'' \<notin> set s" "CHR ''>'' \<notin> set s'" "edgeId s t k = edgeId s' t' k'"
  shows "s = s' \<and> t = t' \<and> k = k'"
proof -
  have form: "\<And>u v q. edgeId u v q
      = (u @ '' -'') @ CHR ''>'' # (('' '' @ v @ '' '') @ CHR ''('' # (edge_type_str q @ '')''))"
    by (simp add: edgeId_def)
  have "CHR ''>'' \<notin> set (s @ '' -'')" "CHR ''>'' \<notin> set (s' @ '' -'')"
    using assms(1,2) by simp_all
  from split_at_first [OF this assms(3) [unfolded form]]
  have s: "s = s'"
    and r: "('' '' @ t @ '' '') @ CHR ''('' # (edge_type_str k @ '')'')
          = ('' '' @ t' @ '' '') @ CHR ''('' # (edge_type_str k' @ '')'')"
    by simp_all
  from split_at_last [OF edge_type_str_no_paren edge_type_str_no_paren r]
  have "t = t'" "edge_type_str k = edge_type_str k'" by simp_all
  with s show ?thesis by (simp add: edge_type_str_inj)
qed

lemma fold_invariant_set:
  "P st \<Longrightarrow> (\<And>x s. x \<in> set xs \<Longrightarrow> P s \<Longrightarrow> P (f x s)) \<Longrightarrow> P (fold f xs st)"
  by (induction xs arbitrary: st) simp_all

lemma fold_establish:
  assumes "x \<in> set xs" "I st"
    and step: "\<And>y s. y \<in> set xs \<Longrightarrow> I s \<Longrightarrow> I (f y s)"
    and est: "\<And>s. I s \<Longrightarrow> Q (f x s)"
    and keep: "\<And>y s. y \<in> set xs \<Longrightarrow> I s \<Longrightarrow> Q s \<Longrightarrow> Q (f y s)"
  shows "I (fold f xs st) \<and> Q (fold f xs st)"
proof -
  from assms(1) obtain pre post where xs: "xs = pre @ x # post"
    by (auto dest: split_list)
  have 1: "I (fold f pre st)"
    using assms(2) by (rule fold_invariant_set [where P = I]) (simp add: step xs)
  have 2: "I (f x (fold f pre st)) \<and> Q (f x (fold f pre st))"
    using 1 est step [of x] assms(1) by simp
  have "I (fold f post (f x (fold f pre st))) \<and> Q (fold f post (f x (fold f pre st)))"
    using 2 by (rule fold_invariant_set [where P = "\<lambda>s. I s \<and> Q s"]) (simp add: step keep xs)
  then show ?thesis by (simp add: xs)
qed



lemma ids_backed_initial: "ids_backed initialGraphState"
  by (simp add: ids_backed_def initialGraphState_def)

lemma ids_backed_pushEdge:
  assumes "ids_backed st" "CHR ''>'' \<notin> set (edge_from e)"
  shows "ids_backed (pushEdge e st)"
  unfolding ids_backed_def
proof (intro allI impI)
  fix s t k
  assume c: "CHR ''>'' \<notin> set s" and i: "edgeId s t k \<in> processedEdges (pushEdge e st)"
  show "\<exists>e'\<in>set (edges (pushEdge e st)). edge_key e' = (s, t, k)"
  proof (cases "edgeId s t k \<in> processedEdges st")
    case True
    with assms(1) c show ?thesis by (auto simp: ids_backed_def pushEdge_def)
  next
    case False
    with i have "edgeId s t k = edgeId (edge_from e) (edge_to e) (edge_type e)"
      by (simp add: pushEdge_def)
    from edgeId_inj [OF c assms(2) this] show ?thesis
      by (simp add: pushEdge_def edge_key_def)
  qed
qed

lemma ids_backed_edges_update:
  assumes "ids_backed st" "map edge_key es = map edge_key (edges st)"
  shows "ids_backed (st\<lparr>edges := es\<rparr>)"
proof -
  have "edge_key ` set es = edge_key ` set (edges st)"
    using assms(2) by (metis set_map)
  then have "\<And>key. (\<exists>e\<in>set (edges st). edge_key e = key) \<Longrightarrow> (\<exists>e\<in>set es. edge_key e = key)"
    by (metis (no_types, lifting) image_iff)
  with assms(1) show ?thesis unfolding ids_backed_def by simp
qed

lemma ids_backed_unresolved: "ids_backed st \<Longrightarrow> ids_backed (st\<lparr>unresolvedImports := u\<rparr>)"
  by (simp add: ids_backed_def)

lemma ids_backed_importStep:
  "ids_backed st \<Longrightarrow> CHR ''>'' \<notin> set src \<Longrightarrow> ids_backed (importStep cwd a src imp st)"
  unfolding importStep_def Let_def
  by (auto intro!: ids_backed_pushEdge ids_backed_edges_update ids_backed_unresolved
        simp: updateFirst_keys edge_key_addImportName split: option.splits)

lemma ids_backed_usageStep:
  "ids_backed st \<Longrightarrow> CHR ''>'' \<notin> set src \<Longrightarrow> ids_backed (usageStep m k r src u st)"
  unfolding usageStep_def
  by (auto intro!: ids_backed_pushEdge ids_backed_edges_update
        simp: updateFirst_keys edge_key_addName split: option.splits)

lemma ids_backed_definitionStep:
  "ids_backed st \<Longrightarrow> CHR ''>'' \<notin> set src \<Longrightarrow> ids_backed (definitionStep a d k n r src st)"
  unfolding definitionStep_def
  by (auto intro!: ids_backed_pushEdge split: option.splits)

lemma ids_backed_processFile:
  assumes "ids_backed st" "CHR ''>'' \<notin> set (fst entry)"
  shows "ids_backed (processFile cwd a entry st)"
proof -
  obtain src fa where e: "entry = (src, fa)" by (cases entry)
  with assms(2) have c: "CHR ''>'' \<notin> set src" by simp
  show ?thesis
    unfolding e using assms(1)
    by (rule processFile_invariant)
       (simp_all add: c ids_backed_importStep ids_backed_usageStep ids_backed_definitionStep
          renderStep_def typeStep_def contextStep_def hocStep_def)
qed



lemma updateFirst_keeps:
  assumes "\<And>e. edge_key (f e) = edge_key e"
    and "\<And>e. set (importedNames e) \<subseteq> set (importedNames (f e))"
    and "e \<in> set es"
  shows "\<exists>e'\<in>set (updateFirst P f es).
           edge_key e' = edge_key e \<and> set (importedNames e) \<subseteq> set (importedNames e')"
  using assms(3)
proof (induction es)
  case Nil
  then show ?case by simp
next
  case (Cons x xs)
  then show ?case using assms(1,2) by (cases "P x") auto
qed

lemma names_addName_mono: "set (importedNames e) \<subseteq> set (importedNames (addName n e))"
  by (auto simp: addName_def)

lemma names_addImportName_mono: "set (importedNames e) \<subseteq> set (importedNames (addImportName imp e))"
  by (auto simp: addImportName_def)

lemma names_addName_mem:
  "x \<in> set (importedNames e) \<Longrightarrow> x \<in> set (importedNames (addName n e))"
  by (auto simp: addName_def)

lemma names_addImportName_mem:
  "x \<in> set (importedNames e) \<Longrightarrow> x \<in> set (importedNames (addImportName imp e))"
  by (auto simp: addImportName_def)

lemma has_named_edge_push: "has_named_edge key n st \<Longrightarrow> has_named_edge key n (pushEdge e st)"
  by (auto simp: has_named_edge_def pushEdge_def)

lemma has_named_edge_updateFirst:
  assumes "has_named_edge key n st"
    and "\<And>e. edge_key (f e) = edge_key e"
    and "\<And>e. set (importedNames e) \<subseteq> set (importedNames (f e))"
  shows "has_named_edge key n (st\<lparr>edges := updateFirst P f (edges st)\<rparr>)"
proof -
  from assms(1) obtain e where e: "e \<in> set (edges st)" "edge_key e = key" "n \<in> set (importedNames e)"
    by (auto simp: has_named_edge_def)
  from updateFirst_keeps [of f e "edges st" P, OF assms(2,3) e(1)] e(2,3)
  show ?thesis by (auto simp: has_named_edge_def)
qed

lemma has_named_edge_unresolved:
  "has_named_edge key n st \<Longrightarrow> has_named_edge key n (st\<lparr>unresolvedImports := u\<rparr>)"
  by (simp add: has_named_edge_def)

lemma has_named_edge_importStep:
  "has_named_edge key n st \<Longrightarrow> has_named_edge key n (importStep cwd a src imp st)"
  unfolding importStep_def Let_def
  by (auto intro!: has_named_edge_push has_named_edge_updateFirst has_named_edge_unresolved
        simp: edge_key_addImportName names_addImportName_mem)

lemma has_named_edge_usageStep:
  "has_named_edge key n st \<Longrightarrow> has_named_edge key n (usageStep m k r src u st)"
  unfolding usageStep_def
  by (auto intro!: has_named_edge_push has_named_edge_updateFirst
        simp: edge_key_addName names_addName_mem split: option.splits)

lemma has_named_edge_definitionStep:
  "has_named_edge key n st \<Longrightarrow> has_named_edge key n (definitionStep a d k m r src st)"
  unfolding definitionStep_def
  by (auto intro!: has_named_edge_push split: option.splits)

lemma has_named_edge_processFile:
  assumes "has_named_edge key n st"
  shows "has_named_edge key n (processFile cwd a entry st)"
proof -
  obtain src fa where e: "entry = (src, fa)" by (cases entry)
  show ?thesis
    unfolding e using assms
    by (rule processFile_invariant)
       (simp_all add: has_named_edge_importStep has_named_edge_usageStep
          has_named_edge_definitionStep renderStep_def typeStep_def contextStep_def hocStep_def)
qed

lemma or_else_in_addImportName:
  "truthy (or_else (importedAs imp) (imp_name imp)) \<Longrightarrow>
   or_else (importedAs imp) (imp_name imp) \<in> set (importedNames (addImportName imp e))"
  by (auto simp: addImportName_def or_else_def truthy_opt_def split: option.splits)

lemma edgeMatches_key: "edgeMatches s t k e \<longleftrightarrow> edge_key e = (s, t, k)"
  by (auto simp: edgeMatches_def edge_key_def)

lemma importStep_establishes:
  assumes "graph_inv st" "ids_backed st" "CHR ''>'' \<notin> set src"
    and "\<not> str_includes (imp_path imp) ''import(''"
    and "resolveImportPath cwd src (imp_path imp) (analyzedFiles a) (rootPath a) = Some tgt"
    and "truthy tgt" "tgt \<noteq> src" "truthy (or_else (importedAs imp) (imp_name imp))"
  shows "has_named_edge (src, tgt, Import) (or_else (importedAs imp) (imp_name imp))
           (importStep cwd a src imp st)"
proof (cases "edgeId src tgt Import \<in> processedEdges st")
  case False
  with assms(4-7) show ?thesis
    by (simp add: importStep_def Let_def truthy_opt_def has_named_edge_def pushEdge_def edge_key_def)
next
  case True
  with assms(2,3) have "\<exists>e\<in>set (edges st). edge_key e = (src, tgt, Import)"
    unfolding ids_backed_def by blast
  then obtain e where "e \<in> set (edges st)" "edge_key e = (src, tgt, Import)"
    by blast
  then have "find (edgeMatches src tgt Import) (edges st) \<noteq> None"
    by (auto simp: find_None_iff edgeMatches_key)
  then obtain e0 where f: "find (edgeMatches src tgt Import) (edges st) = Some e0" by auto
  then have k: "edge_key e0 = (src, tgt, Import)"
    by (auto simp: find_Some_iff edgeMatches_key)
  have "Import = (if str_includes (imp_path imp) ''import('' then DynamicImport else Import)"
    using assms(4) by simp
  from importStep_rediscovery [OF assms(1) this f assms(5,6,7)]
  have "rediscovered st e0 (addImportName imp e0) (importStep cwd a src imp st)" .
  then have "addImportName imp e0 \<in> set (edges (importStep cwd a src imp st))"
    by (auto simp: rediscovered_def)
  moreover have "edge_key (addImportName imp e0) = (src, tgt, Import)"
    using k by (simp add: edge_key_addImportName)
  ultimately show ?thesis
    using or_else_in_addImportName [OF assms(8), of e0]
    unfolding has_named_edge_def by blast
qed

lemma distinct_filter_le1:
  "distinct (map f xs) \<Longrightarrow> length (filter (\<lambda>x. f x = k) xs) \<le> 1"
proof (induction xs)
  case Nil
  then show ?case by simp
next
  case (Cons x xs)
  then show ?case
    by (cases "f x = k") (auto simp: filter_empty_conv image_iff)
qed

lemma graph_inv_fold_processFile:
  "graph_inv st \<Longrightarrow> graph_inv (fold (processFile cwd a) xs st)"
  by (rule fold_invariant [where P = graph_inv]) (simp_all add: graph_inv_processFile)

lemma import_edge_exists:
  assumes clean: "\<forall>p\<in>fst ` set (analyzedFiles a). CHR ''>'' \<notin> set p"
    and entry: "(src, fa) \<in> set (analyzedFiles a)" and imp: "imp \<in> set (fa_imports fa)"
    and static: "\<not> str_includes (imp_path imp) ''import(''"
    and res: "resolveImportPath cwd src (imp_path imp) (analyzedFiles a) (rootPath a) = Some tgt"
    and tgt: "truthy tgt" "tgt \<noteq> src"
    and nm: "truthy (or_else (importedAs imp) (imp_name imp))"
  shows "has_named_edge (src, tgt, Import) (or_else (importedAs imp) (imp_name imp))
           (buildDependencyGraph cwd a)"
proof -
  let ?I = "\<lambda>s. graph_inv s \<and> ids_backed s"
  let ?Q = "has_named_edge (src, tgt, Import) (or_else (importedAs imp) (imp_name imp))"
  have c: "CHR ''>'' \<notin> set src" using clean entry by force
  have file_est: "?Q (processFile cwd a (src, fa) s)" if s: "?I s" for s
  proof -
    have "?I (fold (importStep cwd a src) (fa_imports fa) s)
          \<and> ?Q (fold (importStep cwd a src) (fa_imports fa) s)"
      using imp s
    proof (rule fold_establish [where I = ?I and Q = ?Q])
      show "?I (importStep cwd a src y s')" if "?I s'" for y s'
        using that c by (simp add: graph_inv_importStep ids_backed_importStep)
      show "?Q (importStep cwd a src imp s')" if "?I s'" for s'
        using that c static res tgt nm by (simp add: importStep_establishes)
      show "?Q (importStep cwd a src y s')" if "?Q s'" for y s'
        using that by (rule has_named_edge_importStep)
    qed
    then have q: "?Q (fold (importStep cwd a src) (fa_imports fa) s)" by simp
    have "?Q (fold (typeStep a src) (typesUsedInAnnotations fa)
            (fold (hocStep a src) (components fa)
              (fold (contextStep a src) (contextAPIs fa)
                (fold (renderStep a src) (jsxElementsUsed fa)
                  (fold (importStep cwd a src) (fa_imports fa) s)))))"
      by (intro fold_invariant [where P = ?Q] q)
         (simp_all add: has_named_edge_usageStep has_named_edge_definitionStep
            renderStep_def typeStep_def contextStep_def hocStep_def)
    then show ?thesis by (simp add: processFile_def)
  qed
  have "?I (fold (processFile cwd a) (analyzedFiles a) initialGraphState)
        \<and> ?Q (fold (processFile cwd a) (analyzedFiles a) initialGraphState)"
    using entry
  proof (rule fold_establish [where I = ?I and Q = ?Q])
    show "?I initialGraphState"
      by (simp add: graph_inv_initial ids_backed_initial)
    show "?I (processFile cwd a y s)" if "y \<in> set (analyzedFiles a)" "?I s" for y s
      using that clean by (simp add: graph_inv_processFile ids_backed_processFile)
    show "?Q (processFile cwd a (src, fa) s)" if "?I s" for s
      using that by (rule file_est)
    show "?Q (processFile cwd a y s)" if "?Q s" for y s
      using that by (rule has_named_edge_processFile)
  qed
  then show ?thesis by (simp add: buildDependencyGraph_def)
qed

lemma exProjectC_found:
  "find (hasEntry (analyzedFiles exProjectC))
     (candidatePaths (relativeBase ''/cwd'' (rootPath exProjectC) ''a.tsx'' ''./widgets/Card''))
   = Some ''widgets/Card.tsx''"
  by code_simp

text \<open>
  Claim C9, as amended. Take a project none of whose file paths contains \<^verbatim>\<open>>\<close>, a file
  \<open>src\<close> of it and one of its imports whose specifier is relative (it starts with
  \<^verbatim>\<open>.\<close>) and does not contain \<^verbatim>\<open>import(\<close>. The candidates for the base path (the
  specifier resolved against the directory of \<open>src\<close>) are tried in the order of
  \<open>candidatePaths\<close>: the base path itself, then for each known extension in turn the
  base path with the extension appended followed by the index file with that extension
  inside the base path; \<^verbatim>\<open>resolveImportPath\<close> returns the first one found. If that is a
  non-empty path \<open>tgt\<close> other than \<open>src\<close>, the graph has exactly one import edge from
  \<open>src\<close> to \<open>tgt\<close>, and its \<^verbatim>\<open>importedNames\<close> contain the imported name
  (\<^verbatim>\<open>imp.importedAs || imp.name\<close>), provided that name is not empty.
\<close>

theorem C9_relative_import_edge:
  assumes clean: "\<forall>p\<in>fst ` set (analyzedFiles analysis). CHR ''>'' \<notin> set p"
    and entry: "(src, fa) \<in> set (analyzedFiles analysis)" and imp: "imp \<in> set (fa_imports fa)"
    and rel: "startsWith (imp_path imp) ''.''"
    and static: "\<not> str_includes (imp_path imp) ''import(''"
    and found: "find (hasEntry (analyzedFiles analysis))
                  (candidatePaths (relativeBase cwd (rootPath analysis) src (imp_path imp)))
                = Some tgt"
    and tgt: "tgt \<noteq> []" "tgt \<noteq> src"
    and nm: "or_else (importedAs imp) (imp_name imp) \<noteq> []"
  shows "resolveImportPath cwd src (imp_path imp) (analyzedFiles analysis) (rootPath analysis)
           = Some tgt
         \<and> length (filter (edgeMatches src tgt Import)
                      (edges (buildDependencyGraph cwd analysis))) = 1
         \<and> (\<forall>e\<in>set (edges (buildDependencyGraph cwd analysis)).
               edgeMatches src tgt Import e
               \<longrightarrow> or_else (importedAs imp) (imp_name imp) \<in> set (importedNames e))"
proof -
  let ?G = "buildDependencyGraph cwd analysis"
  let ?n = "or_else (importedAs imp) (imp_name imp)"
  have res: "resolveImportPath cwd src (imp_path imp) (analyzedFiles analysis) (rootPath analysis)
           = Some tgt"
    using found by (simp add: resolve_relative [OF rel])
  have "has_named_edge (src, tgt, Import) ?n ?G"
    using clean entry imp static res tgt nm
    by (intro import_edge_exists) (simp_all add: truthy_def)
  then obtain e where e: "e \<in> set (edges ?G)" "edge_key e = (src, tgt, Import)"
      "?n \<in> set (importedNames e)"
    by (auto simp: has_named_edge_def)
  have d: "distinct (map edge_key (edges ?G))"
    using graph_inv_build [of cwd analysis] by (simp add: graph_inv_def)
  have fe: "filter (edgeMatches src tgt Import) (edges ?G)
            = filter (\<lambda>x. edge_key x = (src, tgt, Import)) (edges ?G)"
    by (simp add: edgeMatches_key [abs_def])
  have "length (filter (edgeMatches src tgt Import) (edges ?G)) \<le> 1"
    unfolding fe using d by (rule distinct_filter_le1)
  moreover have "filter (edgeMatches src tgt Import) (edges ?G) \<noteq> []"
    using e by (auto simp: filter_empty_conv edgeMatches_key)
  ultimately have one: "length (filter (edgeMatches src tgt Import) (edges ?G)) = 1"
    by (cases "filter (edgeMatches src tgt Import) (edges ?G)") auto
  have "e' = e" if "e' \<in> set (edges ?G)" "edgeMatches src tgt Import e'" for e'
    using that e d by (metis (no_types, lifting) distinct_map edgeMatches_key inj_on_def)
  with e res one show ?thesis by auto
qed

text \<open>
  Witness for C9: scenario C. \<^verbatim>\<open>a.tsx\<close> imports \<^verbatim>\<open>./widgets/Card\<close>, the file
  \<^verbatim>\<open>widgets/Card.tsx\<close> exists; the graph has the import edge, with the name \<^verbatim>\<open>Card\<close>.
\<close>

theorem C9_witness:
  "resolveImportPath ''/cwd'' ''a.tsx'' ''./widgets/Card'' (analyzedFiles exProjectC) ''/proj''
     = Some ''widgets/Card.tsx''
   \<and> length (filter (edgeMatches ''a.tsx'' ''widgets/Card.tsx'' Import)
                (edges (buildDependencyGraph ''/cwd'' exProjectC))) = 1
   \<and> edges (buildDependencyGraph ''/cwd'' exProjectC) = [exImportEdge, exRenderEdge]
   \<and> ''Card'' \<in> set (importedNames exImportEdge)"
proof -
  have clean: "\<forall>p\<in>fst ` set (analyzedFiles exProjectC). CHR ''>'' \<notin> set p"
    by (simp add: exProjectC_def)
  have entry: "(''a.tsx'', (exAnalysis ''a.tsx'')
                  \<lparr>fa_imports := [exImport ''Card'' ''./widgets/Card''],
                   jsxElementsUsed := [(''Card'', 2)]\<rparr>) \<in> set (analyzedFiles exProjectC)"
    by (simp add: exProjectC_def)
  have imp: "exImport ''Card'' ''./widgets/Card''
               \<in> set (fa_imports ((exAnalysis ''a.tsx'')
                        \<lparr>fa_imports := [exImport ''Card'' ''./widgets/Card''],
                         jsxElementsUsed := [(''Card'', 2)]\<rparr>))"
    by simp
  have rel: "startsWith (imp_path (exImport ''Card'' ''./widgets/Card'')) ''.''"
    by (simp add: exImport_def startsWith_def)
  have static: "\<not> str_includes (imp_path (exImport ''Card'' ''./widgets/Card'')) ''import(''"
    by (simp add: exImport_def startsWith_def)
  have found: "find (hasEntry (analyzedFiles exProjectC))
                 (candidatePaths (relativeBase ''/cwd'' (rootPath exProjectC) ''a.tsx''
                    (imp_path (exImport ''Card'' ''./widgets/Card''))))
               = Some ''widgets/Card.tsx''"
    using exProjectC_found by (simp add: exImport_def)
  have nm: "or_else (importedAs (exImport ''Card'' ''./widgets/Card''))
              (imp_name (exImport ''Card'' ''./widgets/Card'')) \<noteq> []"
    by (simp add: exImport_def or_else_def truthy_def)
  from C9_relative_import_edge [OF clean entry imp rel static found _ _ nm] exProjectC_edges
  show ?thesis
    by (simp add: exImport_def exProjectC_def exImportEdge_def)
qed

text \<open>
  Counterexample to C9 as stated: in \<open>exProjectI\<close> both \<^verbatim>\<open>widgets/Card.tsx\<close> and
  \<^verbatim>\<open>widgets/Card/index.ts\<close> exist. In the order the claim gives (all extensions, then
  all index files) the import of \<^verbatim>\<open>./widgets/Card\<close> resolves to \<^verbatim>\<open>widgets/Card.tsx\<close>;
  the code tries \<^verbatim>\<open>widgets/Card/index.ts\<close> before \<^verbatim>\<open>widgets/Card.tsx\<close>, and the only
  edge of the graph goes there.
\<close>

theorem C9_counterexample:
  "relativeBase ''/cwd'' ''/proj'' ''a.tsx'' ''./widgets/Card'' = ''widgets/Card''
   \<and> find (hasEntry (analyzedFiles exProjectI)) (claimedCandidatePaths ''widgets/Card'')
       = Some ''widgets/Card.tsx''
   \<and> resolveImportPath ''/cwd'' ''a.tsx'' ''./widgets/Card'' (analyzedFiles exProjectI) ''/proj''
       = Some ''widgets/Card/index.ts''
   \<and> map edge_key (edges (buildDependencyGraph ''/cwd'' exProjectI))
       = [(''a.tsx'', ''widgets/Card/index.ts'', Import)]"
  by code_simp

section \<open>The merge decision\<close>














lemma exDeepMerge_values:
  "(case deepSmartMerge exBabel ''formatDate'' [exFormatDateEntity]
           (originalAnalyzedFileMap [exWorkspace]) [exLocWarning] of
      Inr (Some e) \<Rightarrow> (fm_id e, status e, mergedAST e, mergeQualityScore e, needsManualReview e)
                      = (''merged/utils/formatdate.ts'', MergedWithWarnings,
                         Ast ''export default formatDate;'', Some 95, True)
    | _ \<Rightarrow> False)"
  "(case deepSmartMerge exBabel ''formatDate'' [exFormatDateEntity]
           (originalAnalyzedFileMap [exWorkspace]) [] of
      Inr (Some e) \<Rightarrow> (fm_id e, status e, mergedAST e, mergeQualityScore e, needsManualReview e)
                      = (''merged/utils/formatdate.ts'', Merged,
                         Ast ''export default formatDate;'', Some 100, False)
    | _ \<Rightarrow> False)"
  "(case deepSmartMerge exBabel ''formatDate''
           (exEntity ''merged/utils/formatdate.ts'' ''formatDate'' ''p2/formatDate.ts''
              # [exFormatDateEntity])
           (originalAnalyzedFileMap [exWorkspace]) [] of
      Inr (Some e) \<Rightarrow> (fm_id e, status e, mergeQualityScore e, needsManualReview e)
                      = (''merged/utils/formatdate.ts'', MergeError, Some 0, True)
    | _ \<Rightarrow> False)"
  by code_simp+





text \<open>
  When the generator throws on the final tree, \<^verbatim>\<open>deepSmartMerge\<close> throws, and
  \<^verbatim>\<open>runMergeStep\<close> catches it and emits an error entry with score 0.
\<close>

lemma exThrowingBabel_caught:
  "deepSmartMerge exThrowingBabel ''formatDate'' [exFormatDateEntity]
     (originalAnalyzedFileMap [exWorkspace]) [exLocWarning] = Inl (Error ''unknown node type'')"
  "(case runMergeStep exThrowingBabel exMergeInput of
      Inr st \<Rightarrow>
        map (\<lambda>e. (fm_id e, status e, mergeQualityScore e, needsManualReview e))
          (finalMergedEntities st)
        = [(''merged/components/button.ts'', SkippedConflict, None, True),
           (''merged/utils/formatdate.ts'', MergeError, Some 0, True)]
    | Inl thrown \<Rightarrow> False)"
  by code_simp+

section \<open>Critical conflicts in the merge step\<close>

text \<open>
  Where the entities carry their original paths, the step skips the group whose first
  member has a path among the related files of a critical error: in \<open>exMergeInput\<close>
  \<^verbatim>\<open>Button\<close> is skipped and only \<^verbatim>\<open>formatDate\<close> is handed to \<^verbatim>\<open>deepSmartMerge\<close>.
\<close>

lemma exMergeInput_skips:
  "(case runMergeStep exBabel exMergeInput of
      Inr st \<Rightarrow>
        deepSmartMergeCalls st = [[exFormatDateEntity]]
        \<and> map (\<lambda>e. (fm_id e, status e, needsManualReview e, mergeStrategyUsed e))
              (filter (\<lambda>e. fm_id e = ''merged/components/button.ts'') (finalMergedEntities st))
            = [(''merged/components/button.ts'', SkippedConflict, True,
                Some SkippedDueToCriticalConflict)]
    | Inl thrown \<Rightarrow> False)"
  by code_simp

text \<open>
  Only the first member of a group is tested: in \<open>exSharedIdInput\<close> the error conflict
  of the second member goes unnoticed, and both members are handed to
  \<^verbatim>\<open>deepSmartMerge\<close>.
\<close>

lemma exSharedIdInput_merges:
  "(case runMergeStep exBabel exSharedIdInput of
      Inr st \<Rightarrow>
        deepSmartMergeCalls st = [[exButtonEntity, exButtonLower]]
        \<and> SkippedConflict \<notin> set (map status (finalMergedEntities st))
    | Inl thrown \<Rightarrow> False)"
  by code_simp


end
